theory Spec2Isabelle
  imports Complex_Main "HOL-Library.Multiset"
begin

section \<open>Python exceptions and tensors\<close>

text \<open>
  Every \<^verbatim>\<open>raise\<close> of the scripts (and of the library calls they make) is a value of
  \<open>error\<close>; a function that can raise returns \<open>error + 'a\<close> with \<open>Inl\<close> the exception.
\<close>

datatype error =
    ValueError string
  | AttributeError string
  | IndexError string
  | UnboundLocalError string
  | AssertionError string
  | RuntimeError string
  | FileNotFoundError string
  | ZeroDivisionError string

text \<open>
  A spectrogram tensor as \<^verbatim>\<open>extract_features\<close> returns it: channels, then mel bins, then
  time frames. Floating-point numbers are read as reals.
\<close>

type_synonym spectrogram = "real list list list"

section \<open>Thresholded predictions (train.py, evaluate.py, validate.py)\<close>

text \<open>\<^verbatim>\<open>torch.sigmoid\<close>, elementwise.\<close>

definition sigmoid :: "real \<Rightarrow> real" where
  "sigmoid x = 1 / (1 + exp (- x))"

text \<open>\<^verbatim>\<open>(t > 0.5).float()\<close> on one element.\<close>

definition gt_half :: "real \<Rightarrow> real" where
  "gt_half t = (if t > 5 / 10 then 1 else 0)"

text \<open>
  evaluate.py, \<^verbatim>\<open>evaluate_model\<close> (and validate.py, \<^verbatim>\<open>validate_model\<close>):
  \<^verbatim>\<open>probs = torch.sigmoid(outputs); preds = (probs > 0.5).float()\<close>.
\<close>

definition evaluate_model_preds :: "real list list \<Rightarrow> real list list" where
  "evaluate_model_preds outputs =
     (let probs = map (map sigmoid) outputs in map (map gt_half) probs)"

text \<open>
  train.py, \<^verbatim>\<open>train_epoch\<close> and \<^verbatim>\<open>validate\<close>: \<^verbatim>\<open>preds = (outputs > 0.5).float()\<close>,
  on the raw outputs of the model (the loss is \<^verbatim>\<open>BCEWithLogitsLoss\<close>, so they are logits).
\<close>

definition train_epoch_preds :: "real list list \<Rightarrow> real list list" where
  "train_epoch_preds outputs = map (map gt_half) outputs"

section \<open>HeartSoundDataset (preprocessing.py)\<close>

text \<open>
  The \<^verbatim>\<open>config\<close> argument is only tested for truth: \<^verbatim>\<open>None\<close> and an empty dict are
  false, a non-empty dict (validate.py passes one) and a \<^verbatim>\<open>Config\<close> object are true.
\<close>

datatype config_arg = NoConfig | DictConfig "(string \<times> string) list" | ObjectConfig

fun truthy :: "config_arg \<Rightarrow> bool" where
  "truthy NoConfig = False"
| "truthy (DictConfig d) = (d \<noteq> [])"
| "truthy ObjectConfig = True"

record HeartSoundDataset =
  features :: "spectrogram list"
  labels :: "real list list"
  filenames :: "string list option"
  transform :: "(spectrogram \<Rightarrow> spectrogram) option"
  augment :: bool
  config :: config_arg

text \<open>
  \<^verbatim>\<open>__init__(self, features, labels, filenames=None, transform=None, augment=False,
  config=None)\<close>.
\<close>

definition HeartSoundDataset_init ::
  "spectrogram list \<Rightarrow> real list list \<Rightarrow> string list option \<Rightarrow>
   (spectrogram \<Rightarrow> spectrogram) option \<Rightarrow> bool \<Rightarrow> config_arg \<Rightarrow> HeartSoundDataset" where
  "HeartSoundDataset_init fs ls fns tr aug cfg =
     \<lparr>features = fs, labels = ls, filenames = fns, transform = tr, augment = aug, config = cfg\<rparr>"

text \<open>
  The random numbers one \<^verbatim>\<open>__getitem__\<close> call draws: the two \<^verbatim>\<open>np.random.random()\<close>
  values, and the band \<open>(mask_start, mask_end)\<close> that torchaudio's masking transform draws
  when it is applied.
\<close>

record draws =
  u_freq :: real
  freq_band :: "nat \<times> nat"
  u_time :: real
  time_band :: "nat \<times> nat"

text \<open>
  torchaudio \<^verbatim>\<open>FrequencyMasking\<close> / \<^verbatim>\<open>TimeMasking\<close> (library): the positions
  \<open>mask_start \<le> i < mask_end\<close> along the mel axis (the time axis) are filled with 0.
\<close>

definition mask_band :: "nat \<times> nat \<Rightarrow> 'a \<Rightarrow> 'a list \<Rightarrow> 'a list" where
  "mask_band b z xs =
     map (\<lambda>(i, x). if fst b \<le> i \<and> i < snd b then z else x) (enumerate 0 xs)"

definition FrequencyMasking :: "nat \<times> nat \<Rightarrow> spectrogram \<Rightarrow> spectrogram" where
  "FrequencyMasking b x =
     map (\<lambda>chan. map (\<lambda>(i, row). if fst b \<le> i \<and> i < snd b then map (\<lambda>_. 0) row else row)
                    (enumerate 0 chan)) x"

definition TimeMasking :: "nat \<times> nat \<Rightarrow> spectrogram \<Rightarrow> spectrogram" where
  "TimeMasking b x = map (map (mask_band b 0)) x"

text \<open>The values a sample dict and a collated batch dict hold.\<close>

datatype pyobj =
    PStr string
  | PSpec spectrogram
  | PLabel "real list"
  | PSpecs "spectrogram list"
  | PLabels "real list list"
  | PStrs "string list"

text \<open>A Python dict keeps insertion order: an association list.\<close>

type_synonym pydict = "(string \<times> pyobj) list"

text \<open>
  \<^verbatim>\<open>__getitem__(self, idx)\<close>. Indexing past the end raises \<^verbatim>\<open>IndexError\<close>.
\<close>

definition getitem :: "HeartSoundDataset \<Rightarrow> draws \<Rightarrow> nat \<Rightarrow> error + pydict" where
  "getitem self rnd idx =
     (if length (features self) \<le> idx then Inl (IndexError ''features'')
      else if length (labels self) \<le> idx then Inl (IndexError ''labels'')
      else
        let feature = features self ! idx;
            label = labels self ! idx;
            feature =
              (if augment self \<and> truthy (config self) then
                 (let feature = (if u_freq rnd > 5 / 10
                                 then FrequencyMasking (freq_band rnd) feature else feature);
                      feature = (if u_time rnd > 5 / 10
                                 then TimeMasking (time_band rnd) feature else feature)
                  in feature)
               else feature);
            feature = (case transform self of None \<Rightarrow> feature | Some t \<Rightarrow> t feature);
            sample = [(''feature'', PSpec feature), (''label'', PLabel label)]
        in case filenames self of
             None \<Rightarrow> Inr sample
           | Some fns \<Rightarrow>
               if length fns \<le> idx then Inl (IndexError ''filenames'')
               else Inr (sample @ [(''filename'', PStr (fns ! idx))]))"

text \<open>\<^verbatim>\<open>__len__\<close>.\<close>

definition len :: "HeartSoundDataset \<Rightarrow> nat" where
  "len self = length (features self)"

subsection \<open>DataLoader (torch.utils.data, library) over the dataset\<close>

text \<open>
  \<^verbatim>\<open>default_collate\<close> on a list of sample dicts: the keys of the first sample, each with
  the stacked values of all samples.
\<close>

fun stack :: "pyobj list \<Rightarrow> pyobj" where
  "stack (PSpec x # xs) = PSpecs (x # [y. PSpec y \<leftarrow> xs])"
| "stack (PLabel x # xs) = PLabels (x # [y. PLabel y \<leftarrow> xs])"
| "stack (PStr x # xs) = PStrs (x # [y. PStr y \<leftarrow> xs])"
| "stack xs = PStrs []"

definition default_collate :: "pydict list \<Rightarrow> pydict" where
  "default_collate samples =
     (case samples of
        [] \<Rightarrow> []
      | elem # _ \<Rightarrow> map (\<lambda>(key, _). (key, stack (List.map_filter (\<lambda>d. map_of d key) samples))) elem)"

text \<open>Fetching the samples of one batch; the first exception ends the fetch.\<close>

fun fetch :: "HeartSoundDataset \<Rightarrow> (nat \<Rightarrow> draws) \<Rightarrow> nat list \<Rightarrow> error + pydict list" where
  "fetch ds rnd [] = Inr []"
| "fetch ds rnd (i # is) =
     (case getitem ds (rnd i) i of
        Inl e \<Rightarrow> Inl e
      | Inr s \<Rightarrow> (case fetch ds rnd is of Inl e \<Rightarrow> Inl e | Inr ss \<Rightarrow> Inr (s # ss)))"

text \<open>
  The index batches of a sequential sampler (\<^verbatim>\<open>shuffle=False\<close>): \<open>[0..<n]\<close> cut into
  runs of \<open>batch_size\<close>, the last one shorter.
\<close>

fun index_batches :: "nat \<Rightarrow> nat \<Rightarrow> nat \<Rightarrow> nat list list" where
  "index_batches bs start 0 = []"
| "index_batches bs start (Suc k) =
     (if bs = 0 then []
      else [start ..< start + min bs (Suc k)] # index_batches bs (start + bs) (Suc k - bs))"

text \<open>What iterating the loader yields: each batch, or the exception its fetch raised.\<close>

definition DataLoader ::
  "HeartSoundDataset \<Rightarrow> nat \<Rightarrow> (nat \<Rightarrow> draws) \<Rightarrow> (error + pydict) list" where
  "DataLoader ds batch_size rnd =
     map (\<lambda>idxs. case fetch ds rnd idxs of Inl e \<Rightarrow> Inl e | Inr ss \<Rightarrow> Inr (default_collate ss))
         (index_batches batch_size 0 (len ds))"

section \<open>validate.py: validate_model\<close>

text \<open>
  \<^verbatim>\<open>inputs, labels = batch\<close>: unpacking iterates the batch; for a dict that yields its
  keys. Exactly two are needed.
\<close>

fun unpack2 :: "'a list \<Rightarrow> error + ('a \<times> 'a)" where
  "unpack2 [a, b] = Inr (a, b)"
| "unpack2 (a # b # c # xs) = Inl (ValueError ''too many values to unpack (expected 2)'')"
| "unpack2 xs = Inl (ValueError ''not enough values to unpack (expected 2)'')"

definition dict_iter :: "pydict \<Rightarrow> pyobj list" where
  "dict_iter d = map (\<lambda>(key, _). PStr key) d"

text \<open>\<^verbatim>\<open>x.to(device)\<close> and \<^verbatim>\<open>x.cpu().numpy()\<close>: methods of a tensor, not of a string.\<close>

fun to_device :: "pyobj \<Rightarrow> error + spectrogram list" where
  "to_device (PSpecs t) = Inr t"
| "to_device (PSpec t) = Inr [t]"
| "to_device _ = Inl (AttributeError ''object has no attribute to'')"

fun cpu_numpy :: "pyobj \<Rightarrow> error + real list list" where
  "cpu_numpy (PLabels t) = Inr t"
| "cpu_numpy (PLabel t) = Inr [t]"
| "cpu_numpy _ = Inl (AttributeError ''object has no attribute cpu'')"

text \<open>
  The accumulators \<^verbatim>\<open>all_probs\<close>, \<^verbatim>\<open>all_preds\<close>, \<^verbatim>\<open>all_labels\<close> of
  \<^verbatim>\<open>validate_model\<close>.
\<close>

record accum =
  all_probs :: "real list list"
  all_preds :: "real list list"
  all_labels :: "real list list"

text \<open>The body of the loop of \<^verbatim>\<open>validate_model\<close>, for one batch and a model \<open>net\<close>.\<close>

definition validate_model_body ::
  "(spectrogram list \<Rightarrow> real list list) \<Rightarrow> pydict \<Rightarrow> accum \<Rightarrow> error + accum" where
  "validate_model_body net batch acc =
     (case unpack2 (dict_iter batch) of
        Inl e \<Rightarrow> Inl e
      | Inr (inputs, labs) \<Rightarrow>
          (case to_device inputs of
             Inl e \<Rightarrow> Inl e
           | Inr inputs \<Rightarrow>
               let outputs = net inputs;
                   probs = map (map sigmoid) outputs;
                   preds = map (map gt_half) probs
               in case cpu_numpy labs of
                    Inl e \<Rightarrow> Inl e
                  | Inr labs \<Rightarrow>
                      Inr \<lparr>all_probs = all_probs acc @ probs,
                           all_preds = all_preds acc @ preds,
                           all_labels = all_labels acc @ labs\<rparr>))"

fun validate_model_loop ::
  "(spectrogram list \<Rightarrow> real list list) \<Rightarrow> (error + pydict) list \<Rightarrow> accum \<Rightarrow> error + accum" where
  "validate_model_loop net [] acc = Inr acc"
| "validate_model_loop net (Inl e # rest) acc = Inl e"
| "validate_model_loop net (Inr batch # rest) acc =
     (case validate_model_body net batch acc of
        Inl e \<Rightarrow> Inl e
      | Inr acc' \<Rightarrow> validate_model_loop net rest acc')"

text \<open>
  \<^verbatim>\<open>validate_model(model, dataloader, device)\<close>; \<open>score\<close> stands for the three sklearn
  metric calls on the collected labels and predictions.
\<close>

definition validate_model ::
  "(spectrogram list \<Rightarrow> real list list) \<Rightarrow> (real list list \<Rightarrow> real list list \<Rightarrow> 'm) \<Rightarrow>
   (error + pydict) list \<Rightarrow> error + (accum \<times> 'm)" where
  "validate_model net score dataloader =
     (case validate_model_loop net dataloader \<lparr>all_probs = [], all_preds = [], all_labels = []\<rparr> of
        Inl e \<Rightarrow> Inl e
      | Inr acc \<Rightarrow> Inr (acc, score (all_labels acc) (all_preds acc)))"

text \<open>
  The test dataset of validate.py's \<^verbatim>\<open>main\<close>: file names given, no transform,
  \<^verbatim>\<open>augment=False\<close>, \<^verbatim>\<open>config=config['data']\<close> (a non-empty dict).
\<close>

definition validate_py_test_dataset ::
  "spectrogram list \<Rightarrow> real list list \<Rightarrow> string list \<Rightarrow> HeartSoundDataset" where
  "validate_py_test_dataset test_features test_labels test_filenames =
     HeartSoundDataset_init test_features test_labels (Some test_filenames) None False
       (DictConfig [(''processed_dir'', ''data/processed'')])"

text \<open>
  The datasets the other scripts build. train.py's \<^verbatim>\<open>main\<close> builds all three of its
  datasets as \<^verbatim>\<open>HeartSoundDataset(features, labels)\<close>; evaluate.py's builds
  \<^verbatim>\<open>HeartSoundDataset(features=..., labels=..., filenames=...)\<close>.
\<close>

definition train_py_dataset :: "spectrogram list \<Rightarrow> real list list \<Rightarrow> HeartSoundDataset" where
  "train_py_dataset fs ls = HeartSoundDataset_init fs ls None None False NoConfig"

definition evaluate_py_test_dataset ::
  "spectrogram list \<Rightarrow> real list list \<Rightarrow> string list \<Rightarrow> HeartSoundDataset" where
  "evaluate_py_test_dataset test_features test_labels test_filenames =
     HeartSoundDataset_init test_features test_labels (Some test_filenames) None False NoConfig"

section \<open>preprocessing.py: Config, load_audio_file, extract_features\<close>

text \<open>
  The fields of \<^verbatim>\<open>class Config\<close> that the functions below read.
  \<^verbatim>\<open>target_sample_length\<close> is \<^verbatim>\<open>int(target_duration * sample_rate)\<close>.
\<close>

record Config =
  data_dir :: string
  audio_dir :: string
  sample_rate :: nat
  target_duration :: real
  target_sample_length :: nat
  n_fft :: nat
  win_length :: nat
  hop_length :: nat
  n_mels :: nat
  test_size :: real
  val_size :: real

definition Config_class :: Config where
  "Config_class =
     \<lparr>data_dir = ''/home/utopia/BMD-HS-Dataset'',
      audio_dir = ''/home/utopia/BMD-HS-Dataset/train'',
      sample_rate = 4000,
      target_duration = 20,
      target_sample_length = nat \<lfloor>20 * 4000 :: real\<rfloor>,
      n_fft = 1024,
      win_length = 1024,
      hop_length = 512,
      n_mels = 128,
      test_size = 15 / 100,
      val_size = 15 / 100\<rparr>"

text \<open>
  A waveform tensor: channels, then samples. The library calls of torchaudio that the two
  functions make are parameters of the model:
  \<^item> \<open>load\<close>: \<^verbatim>\<open>torchaudio.load\<close>, the waveform and its sample rate, or the exception;
  \<^item> \<open>resample\<close>: \<^verbatim>\<open>T.Resample(orig, new)\<close> on one channel;
  \<^item> \<open>stft_power\<close>: the power of bin \<open>k\<close> of the windowed DFT of one frame
    (\<^verbatim>\<open>T.Spectrogram\<close>, \<open>power=2.0\<close>), from \<open>n_fft\<close>, \<open>win_length\<close> and the frame;
  \<^item> \<open>mel_fb\<close>: the weight of bin \<open>k\<close> in mel band \<open>m\<close> (\<^verbatim>\<open>T.MelScale\<close>), from
    \<open>n_mels\<close>, the sample rate and \<open>n_stft\<close>.
\<close>

type_synonym waveform = "real list list"

record torchaudio =
  load :: "string \<Rightarrow> error + (waveform \<times> nat)"
  resample :: "nat \<Rightarrow> nat \<Rightarrow> real list \<Rightarrow> real list"
  stft_power :: "nat \<Rightarrow> nat \<Rightarrow> real list \<Rightarrow> nat \<Rightarrow> real"
  mel_fb :: "nat \<Rightarrow> nat \<Rightarrow> nat \<Rightarrow> nat \<Rightarrow> nat \<Rightarrow> real"

text \<open>\<^verbatim>\<open>waveform.shape[1]\<close>.\<close>

definition shape1 :: "waveform \<Rightarrow> nat" where
  "shape1 w = (case w of [] \<Rightarrow> 0 | c # _ \<Rightarrow> length c)"

text \<open>\<^verbatim>\<open>torch.mean(waveform, dim=0, keepdim=True)\<close>.\<close>

definition mean_dim0 :: "waveform \<Rightarrow> waveform" where
  "mean_dim0 w = [map (\<lambda>j. (\<Sum>c\<leftarrow>w. c ! j) / real (length w)) [0 ..< shape1 w]]"

text \<open>
  \<^verbatim>\<open>load_audio_file(file_path, config)\<close>: the returned waveform (\<open>None\<close> after an
  exception) and the lines it logged. \<^verbatim>\<open>torch.max\<close> raises on a tensor without elements.
\<close>

definition load_audio_file ::
  "torchaudio \<Rightarrow> string \<Rightarrow> Config \<Rightarrow> waveform option \<times> string list" where
  "load_audio_file lib file_path cfg =
     (case load lib file_path of
        Inl e \<Rightarrow> (None, [''ERROR Error loading audio file '' @ file_path])
      | Inr (waveform, sr) \<Rightarrow>
          let waveform = (if length waveform > 1 then mean_dim0 waveform else waveform);
              waveform = (if sr \<noteq> sample_rate cfg
                          then map (resample lib sr (sample_rate cfg)) waveform else waveform);
              waveform =
                (if shape1 waveform < target_sample_length cfg then
                   (let padding = target_sample_length cfg - shape1 waveform
                    in map (\<lambda>c. c @ replicate padding 0) waveform)
                 else if shape1 waveform > target_sample_length cfg then
                   map (take (target_sample_length cfg)) waveform
                 else waveform)
          in if concat waveform = []
             then (None, [''ERROR Error loading audio file '' @ file_path])
             else
               let peak = foldr max (map abs (concat waveform)) 0
               in (Some (map (map (\<lambda>v. v / (peak + 1 / 10 ^ 8))) waveform), []))"

text \<open>
  \<^verbatim>\<open>T.Spectrogram\<close> pads each channel by reflection with \<open>n_fft div 2\<close> samples on both
  sides (\<open>center=True\<close>), which needs a channel longer than the padding, and cuts frames of
  \<open>n_fft\<close> samples every \<open>hop_length\<close> samples.
\<close>

definition reflect_pad :: "nat \<Rightarrow> real list \<Rightarrow> real list" where
  "reflect_pad p x = rev (take p (tl x)) @ x @ take p (tl (rev x))"

definition n_frames :: "Config \<Rightarrow> nat \<Rightarrow> nat" where
  "n_frames cfg padded_len = 1 + (padded_len - n_fft cfg) div hop_length cfg"

definition Spectrogram :: "torchaudio \<Rightarrow> Config \<Rightarrow> waveform \<Rightarrow> error + spectrogram" where
  "Spectrogram lib cfg w =
     (if hop_length cfg = 0 \<or> n_fft cfg = 0 \<or> win_length cfg = 0 \<or> n_fft cfg < win_length cfg
      then Inl (RuntimeError ''stft: invalid n_fft, win_length or hop_length'')
      else if \<exists>c\<in>set w. length c \<le> n_fft cfg div 2
      then Inl (RuntimeError ''Padding size should be less than the corresponding input dimension'')
      else Inr (map (\<lambda>c. let padded = reflect_pad (n_fft cfg div 2) c
                        in map (\<lambda>k. map (\<lambda>t. stft_power lib (n_fft cfg) (win_length cfg)
                                                (take (n_fft cfg) (drop (t * hop_length cfg) padded)) k)
                                          [0 ..< n_frames cfg (length padded)])
                               [0 ..< n_fft cfg div 2 + 1]) w))"

text \<open>\<^verbatim>\<open>T.MelScale(n_mels, sample_rate, n_stft)\<close>: each frame's bins weighted into mel bands.\<close>

definition MelScale :: "torchaudio \<Rightarrow> nat \<Rightarrow> nat \<Rightarrow> nat \<Rightarrow> spectrogram \<Rightarrow> error + spectrogram" where
  "MelScale lib nmels sr n_stft spec =
     (if \<exists>c\<in>set spec. length c \<noteq> n_stft
      then Inl (RuntimeError ''MelScale: number of frequency bins'')
      else Inr (map (\<lambda>c. map (\<lambda>m. map (\<lambda>t. \<Sum>k\<leftarrow>[0 ..< n_stft]. c ! k ! t * mel_fb lib nmels sr n_stft k m)
                                       [0 ..< (case c of [] \<Rightarrow> 0 | r # _ \<Rightarrow> length r)])
                             [0 ..< nmels]) spec))"

text \<open>\<^verbatim>\<open>T.AmplitudeToDB()\<close> with its defaults (power, no \<open>top_db\<close>).\<close>

definition AmplitudeToDB :: "spectrogram \<Rightarrow> spectrogram" where
  "AmplitudeToDB x = map (map (map (\<lambda>v. 10 * log 10 (max v (1 / 10 ^ 10))))) x"

text \<open>\<^verbatim>\<open>extract_features(waveform, config)\<close>.\<close>

definition extract_features :: "torchaudio \<Rightarrow> waveform \<Rightarrow> Config \<Rightarrow> error + spectrogram" where
  "extract_features lib waveform cfg =
     (case Spectrogram lib cfg waveform of
        Inl e \<Rightarrow> Inl e
      | Inr spec \<Rightarrow>
          (case MelScale lib (n_mels cfg) (sample_rate cfg) (n_fft cfg div 2 + 1) spec of
             Inl e \<Rightarrow> Inl e
           | Inr mel_spec \<Rightarrow> Inr (AmplitudeToDB mel_spec)))"

text \<open>The shape of a tensor of three dimensions, read off the nested lists.\<close>

definition shape3 :: "spectrogram \<Rightarrow> nat \<times> nat list \<times> nat list list" where
  "shape3 x = (length x, map length x, map (map length) x)"

text \<open>The shape \<open>(c, f, t)\<close> as such a reading.\<close>

definition cft :: "nat \<Rightarrow> nat \<Rightarrow> nat \<Rightarrow> nat \<times> nat list \<times> nat list list" where
  "cft c f t = (c, replicate c f, replicate c (replicate f t))"

section \<open>preprocessing.py: process_dataset\<close>

text \<open>\<^verbatim>\<open>os.path.join\<close> of two POSIX paths: an absolute second path replaces the first.\<close>

definition os_path_join :: "string \<Rightarrow> string \<Rightarrow> string" where
  "os_path_join a b =
     (if b \<noteq> [] \<and> hd b = CHR ''/'' then b
      else if a = [] \<or> last a = CHR ''/'' then a @ b
      else a @ ''/'' @ b)"

text \<open>
  A row of the merged label table, as the loop reads it: the values of the class columns
  (\<^verbatim>\<open>[row[col] for col in config.class_columns]\<close>) and the values of the eight
  \<^verbatim>\<open>recording_i\<close> columns as \<^verbatim>\<open>f"{row[rec_col]}"\<close> prints them.
\<close>

record df_row =
  class_values :: "real list"
  recording_values :: "string list"

text \<open>
  The lists and counters of the loop of \<^verbatim>\<open>process_dataset\<close>, and the lines logged.
\<close>

record collected =
  features_acc :: "spectrogram list"
  labels_acc :: "real list list"
  filenames_acc :: "string list"
  processed_count :: nat
  failed_count :: nat
  log_acc :: "string list"

definition collected_init :: collected where
  "collected_init =
     \<lparr>features_acc = [], labels_acc = [], filenames_acc = [],
      processed_count = 0, failed_count = 0, log_acc = []\<rparr>"

text \<open>A loop whose body can raise: the first exception ends it.\<close>

fun for_each :: "('s \<Rightarrow> 'a \<Rightarrow> error + 's) \<Rightarrow> 'a list \<Rightarrow> 's \<Rightarrow> error + 's" where
  "for_each body [] st = Inr st"
| "for_each body (x # xs) st =
     (case body st x of Inl e \<Rightarrow> Inl e | Inr st' \<Rightarrow> for_each body xs st')"

text \<open>
  The body of the inner loop, for one recording of a patient; \<open>path_exists\<close> is
  \<^verbatim>\<open>os.path.exists\<close>. (The picture saved for every hundredth file is left out.)
\<close>

definition file_path_of :: "Config \<Rightarrow> string \<Rightarrow> string" where
  "file_path_of cfg filename = os_path_join (os_path_join (data_dir cfg) (audio_dir cfg)) filename"

definition process_recording ::
  "torchaudio \<Rightarrow> (string \<Rightarrow> bool) \<Rightarrow> Config \<Rightarrow> real list \<Rightarrow> collected \<Rightarrow> string \<Rightarrow>
   error + collected" where
  "process_recording lib path_exists cfg label st rec =
     (let filename = rec @ ''.wav'';
          file_path = file_path_of cfg filename
      in if path_exists file_path then
           (case load_audio_file lib file_path cfg of
              (Some waveform, logged) \<Rightarrow>
                (case extract_features lib waveform cfg of
                   Inl e \<Rightarrow> Inl e
                 | Inr mel_spec \<Rightarrow>
                     Inr (st\<lparr>features_acc := features_acc st @ [mel_spec],
                             labels_acc := labels_acc st @ [label],
                             filenames_acc := filenames_acc st @ [filename],
                             processed_count := processed_count st + 1,
                             log_acc := log_acc st @ logged\<rparr>))
            | (None, logged) \<Rightarrow>
                Inr (st\<lparr>failed_count := failed_count st + 1, log_acc := log_acc st @ logged\<rparr>))
         else
           Inr (st\<lparr>log_acc := log_acc st @ [''WARNING File not found: '' @ file_path],
                   failed_count := failed_count st + 1\<rparr>))"

definition process_row ::
  "torchaudio \<Rightarrow> (string \<Rightarrow> bool) \<Rightarrow> Config \<Rightarrow> collected \<Rightarrow> df_row \<Rightarrow> error + collected" where
  "process_row lib path_exists cfg st row =
     (let label = class_values row
      in for_each (process_recording lib path_exists cfg label) (recording_values row) st)"

definition process_rows ::
  "torchaudio \<Rightarrow> (string \<Rightarrow> bool) \<Rightarrow> Config \<Rightarrow> df_row list \<Rightarrow> error + collected" where
  "process_rows lib path_exists cfg df =
     for_each (process_row lib path_exists cfg) df collected_init"

subsection \<open>sklearn's train_test_split (library)\<close>

text \<open>
  \<^verbatim>\<open>train_test_split(..., test_size=ts, random_state=42, stratify=y)\<close> on \<open>n\<close> samples,
  as the index lists it selects with. \<open>n_test = ceil(ts * n)\<close>, \<open>n_train = n - n_test\<close>; the
  first \<open>n_test\<close> indices of the drawn order are the test set and the next \<open>n_train\<close> the
  training set. \<open>shuffle y n\<close> is the order the seeded generator draws for \<open>n\<close> samples and the
  stratification column \<open>y\<close>. The exceptions are those of sklearn's argument checks.
\<close>

definition train_test_split ::
  "(real list option \<Rightarrow> nat \<Rightarrow> nat list) \<Rightarrow> real \<Rightarrow> real list option \<Rightarrow> nat \<Rightarrow>
   error + (nat list \<times> nat list)" where
  "train_test_split shuffle ts stratify n =
     (if n = 0 then Inl (ValueError ''At least one array required as input'')
      else if ts \<le> 0 \<or> 1 \<le> ts then Inl (ValueError ''test_size should be in the (0, 1) range'')
      else
        let n_test = nat \<lceil>ts * real n\<rceil>;
            n_train = n - n_test;
            n_classes = (case stratify of None \<Rightarrow> 0 | Some y \<Rightarrow> length (remdups y));
            min_count = (case stratify of None \<Rightarrow> 2
                         | Some y \<Rightarrow> foldr min (map (count_list y) (remdups y)) (length y))
        in if n_train = 0 then Inl (ValueError ''the resulting train set will be empty'')
           else if min_count < 2
           then Inl (ValueError ''The least populated class in y has only 1 member'')
           else if n_train < n_classes
           then Inl (ValueError ''The train_size should be greater or equal to the number of classes'')
           else if n_test < n_classes
           then Inl (ValueError ''The test_size should be greater or equal to the number of classes'')
           else
             let permutation = shuffle stratify n;
                 ind_test = take n_test permutation;
                 ind_train = take n_train (drop n_test permutation)
             in Inr (ind_train, ind_test))"

text \<open>Selecting the rows of an array by an index list.\<close>

definition index_rows :: "'a list \<Rightarrow> nat list \<Rightarrow> 'a list" where
  "index_rows xs idx = map ((!) xs) idx"

text \<open>\<^verbatim>\<open>labels_array[:, -1]\<close>: the last column; none when there is no class column.\<close>

definition last_column :: "real list list \<Rightarrow> error + real list" where
  "last_column ls =
     (if \<exists>l\<in>set ls. l = [] then Inl (IndexError ''index -1 is out of bounds for axis 1'')
      else Inr (map last ls))"

text \<open>
  \<^verbatim>\<open>stratify=labels_array[:, -1] if np.sum(labels_array[:, -1]) > 10 else None\<close>.
\<close>

definition stratify_by :: "real list \<Rightarrow> real list option" where
  "stratify_by col = (if sum_list col > 10 then Some col else None)"

type_synonym arrays = "spectrogram list \<times> real list list \<times> string list"

definition select_rows :: "arrays \<Rightarrow> nat list \<Rightarrow> arrays" where
  "select_rows a idx =
     (case a of (fs, ls, ns) \<Rightarrow> (index_rows fs idx, index_rows ls idx, index_rows ns idx))"

text \<open>
  The call as the script makes it, on the three arrays at once: the arrays must have one
  length, and the same index lists select from each. It returns the training part and the
  test part of the three.
\<close>

definition train_test_split_arrays ::
  "(real list option \<Rightarrow> nat \<Rightarrow> nat list) \<Rightarrow> real \<Rightarrow> real list option \<Rightarrow> arrays \<Rightarrow>
   error + (arrays \<times> arrays)" where
  "train_test_split_arrays shuffle ts stratify a =
     (case a of (fs, ls, ns) \<Rightarrow>
        if length ls \<noteq> length fs \<or> length ns \<noteq> length fs
        then Inl (ValueError ''Found input variables with inconsistent numbers of samples'')
        else
          (case train_test_split shuffle ts stratify (length fs) of
             Inl e \<Rightarrow> Inl e
           | Inr (ind_train, ind_test) \<Rightarrow> Inr (select_rows a ind_train, select_rows a ind_test)))"

record dataset_dict =
  train_part :: arrays
  val_part :: arrays
  test_part :: arrays

text \<open>
  The rest of \<^verbatim>\<open>process_dataset\<close> after the loop: stacking (\<^verbatim>\<open>np.stack\<close> needs at least
  one array, all of one shape), the two splits, and the returned dict. Writing the arrays
  to disk is left out.
\<close>

definition split_dataset ::
  "(real list option \<Rightarrow> nat \<Rightarrow> nat list) \<Rightarrow> Config \<Rightarrow> collected \<Rightarrow> error + dataset_dict" where
  "split_dataset shuffle cfg st =
     (if features_acc st = [] then Inl (ValueError ''need at least one array to stack'')
      else if \<exists>f\<in>set (features_acc st). shape3 f \<noteq> shape3 (hd (features_acc st))
      then Inl (ValueError ''all input arrays must have the same shape'')
      else
        let features_array = features_acc st;
            labels_array = labels_acc st;
            filenames_array = filenames_acc st
        in case last_column labels_array of
             Inl e \<Rightarrow> Inl e
           | Inr col \<Rightarrow>
               (case train_test_split_arrays shuffle (test_size cfg) (stratify_by col)
                       (features_array, labels_array, filenames_array) of
                  Inl e \<Rightarrow> Inl e
                | Inr (train_val, test) \<Rightarrow>
                    let train_val_labels = fst (snd train_val);
                        adjusted_val_size = val_size cfg / (1 - test_size cfg)
                    in case last_column train_val_labels of
                         Inl e \<Rightarrow> Inl e
                       | Inr col2 \<Rightarrow>
                           (case train_test_split_arrays shuffle adjusted_val_size
                                   (stratify_by col2) train_val of
                              Inl e \<Rightarrow> Inl e
                            | Inr (train, val) \<Rightarrow>
                                Inr \<lparr>train_part = train, val_part = val, test_part = test\<rparr>)))"

text \<open>\<^verbatim>\<open>process_dataset(config)\<close> on the rows of the merged table.\<close>

definition process_dataset ::
  "torchaudio \<Rightarrow> (string \<Rightarrow> bool) \<Rightarrow> (real list option \<Rightarrow> nat \<Rightarrow> nat list) \<Rightarrow> Config \<Rightarrow>
   df_row list \<Rightarrow> error + dataset_dict" where
  "process_dataset lib path_exists shuffle cfg df =
     (case process_rows lib path_exists cfg df of
        Inl e \<Rightarrow> Inl e
      | Inr st \<Rightarrow> split_dataset shuffle cfg st)"

subsection \<open>Notions the statements about process_dataset use\<close>

text \<open>
  The references of the table, in the order the loops visit them: each recording name with
  the label of its row.
\<close>

definition references :: "df_row list \<Rightarrow> (real list \<times> string) list" where
  "references df = concat (map (\<lambda>row. map (\<lambda>r. (class_values row, r)) (recording_values row)) df)"

text \<open>
  A referenced file is readable when it exists and \<^verbatim>\<open>load_audio_file\<close> returns a waveform.
\<close>

definition readable :: "torchaudio \<Rightarrow> (string \<Rightarrow> bool) \<Rightarrow> Config \<Rightarrow> string \<Rightarrow> bool" where
  "readable lib path_exists cfg rec =
     (path_exists (file_path_of cfg (rec @ ''.wav'')) \<and>
      fst (load_audio_file lib (file_path_of cfg (rec @ ''.wav'')) cfg) \<noteq> None)"

text \<open>The line logged for a reference that is not readable.\<close>

definition failure_line :: "(string \<Rightarrow> bool) \<Rightarrow> Config \<Rightarrow> string \<Rightarrow> string" where
  "failure_line path_exists cfg rec =
     (if path_exists (file_path_of cfg (rec @ ''.wav''))
      then ''ERROR Error loading audio file '' @ file_path_of cfg (rec @ ''.wav'')
      else ''WARNING File not found: '' @ file_path_of cfg (rec @ ''.wav''))"



text \<open>The triples of a partition.\<close>

definition triples :: "arrays \<Rightarrow> (spectrogram \<times> real list \<times> string) list" where
  "triples a = (case a of (fs, ls, ns) \<Rightarrow> zip fs (zip ls ns))"

text \<open>What the loop has done after any list of references, from any state.\<close>

definition loop_post ::
  "torchaudio \<Rightarrow> (string \<Rightarrow> bool) \<Rightarrow> Config \<Rightarrow> (real list \<times> string) list \<Rightarrow> collected \<Rightarrow> collected \<Rightarrow> bool" where
  "loop_post lib path_exists cfg refs st st' =
     (let ok = filter (\<lambda>(l, r). readable lib path_exists cfg r) refs;
          bad = filter (\<lambda>(l, r). \<not> readable lib path_exists cfg r) refs
      in filenames_acc st' = filenames_acc st @ map (\<lambda>(l, r). r @ ''.wav'') ok
       \<and> labels_acc st' = labels_acc st @ map fst ok
       \<and> length (features_acc st') = length (features_acc st) + length ok
       \<and> processed_count st' = processed_count st + length ok
       \<and> failed_count st' = failed_count st + length bad
       \<and> log_acc st' = log_acc st @ map (\<lambda>(l, r). failure_line path_exists cfg r) bad
       \<and> set (features_acc st') - set (features_acc st) \<subseteq>
            {mel. shape3 mel = cft 1 (n_mels cfg) (n_frames cfg (target_sample_length cfg + 2 * (n_fft cfg div 2)))})"

text \<open>The file names of the three partitions.\<close>

definition partition_filenames :: "dataset_dict \<Rightarrow> string list \<times> string list \<times> string list" where
  "partition_filenames d =
     (snd (snd (train_part d)), snd (snd (val_part d)), snd (snd (test_part d)))"

subsection \<open>A small configuration and library, to run the functions on concrete inputs\<close>

definition tiny_config :: Config where
  "tiny_config =
     \<lparr>data_dir = ''d'', audio_dir = ''/a'', sample_rate = 4, target_duration = 1 / 2,
      target_sample_length = 2, n_fft = 2, win_length = 2, hop_length = 1, n_mels = 1,
      test_size = 15 / 100, val_size = 15 / 100\<rparr>"

definition tiny_lib :: torchaudio where
  "tiny_lib =
     \<lparr>load = (\<lambda>p. if p = ''/a/y.wav'' then Inl (RuntimeError ''corrupt'') else Inr ([[1, 1]], 4)),
      resample = (\<lambda>_ _ c. c), stft_power = (\<lambda>_ _ _ _. 0), mel_fb = (\<lambda>_ _ _ _ _. 0)\<rparr>"

section \<open>train.py: the training loop of main\<close>

text \<open>
  The state of \<^verbatim>\<open>main\<close> during training. \<open>'p\<close> is a state dict (the parameters and
  buffers of the model). \<open>model_save_path\<close> is \<open>None\<close> as long as the local variable is
  not bound; \<open>files\<close> are the checkpoint files on disk; \<open>saved_epochs\<close> lists the epochs
  whose iteration ran \<^verbatim>\<open>torch.save\<close> (the 'Saved best model' log lines).
\<close>

record 'p train_state =
  model_state :: 'p
  best_val_f1 :: real
  patience_counter :: nat
  model_save_path :: "string option"
  files :: "string \<Rightarrow> 'p option"
  history_val_f1 :: "real list"
  saved_epochs :: "nat list"

text \<open>
  \<^verbatim>\<open>config['training']\<close>: \<open>num_epochs\<close>, \<open>early_stopping_patience\<close>, and the path
  \<^verbatim>\<open>os.path.join(model_save_dir, f"best_model_{type}.pt")\<close>.
\<close>

definition num_epochs :: nat where
  "num_epochs = 100"

definition early_stopping_patience :: nat where
  "early_stopping_patience = 10"

definition train_save_path :: "string \<Rightarrow> string" where
  "train_save_path model_type = os_path_join ''checkpoints'' (''best_model_'' @ model_type @ ''.pt'')"

text \<open>
  One iteration of the epoch loop, up to the early-stopping test. \<open>train_epoch\<close> is the
  training pass of that epoch on the parameters, \<open>validate\<close> the validation F1 of the
  resulting parameters (both are numeric library work).
\<close>

definition epoch_body ::
  "(nat \<Rightarrow> 'p \<Rightarrow> 'p) \<Rightarrow> ('p \<Rightarrow> real) \<Rightarrow> string \<Rightarrow> 'p train_state \<Rightarrow> nat \<Rightarrow> 'p train_state" where
  "epoch_body train_epoch validate model_type st epoch =
     (let m = train_epoch epoch (model_state st);
          val_f1 = validate m;
          st = st\<lparr>model_state := m, history_val_f1 := history_val_f1 st @ [val_f1]\<rparr>
      in if val_f1 > best_val_f1 st then
           st\<lparr>best_val_f1 := val_f1,
              patience_counter := 0,
              model_save_path := Some (train_save_path model_type),
              files := (files st)(train_save_path model_type \<mapsto> m),
              saved_epochs := saved_epochs st @ [epoch]\<rparr>
         else st\<lparr>patience_counter := patience_counter st + 1\<rparr>)"

text \<open>
  \<^verbatim>\<open>for epoch in range(num_epochs): ...; if patience_counter >= patience: break\<close>.
\<close>

fun training_loop ::
  "(nat \<Rightarrow> 'p \<Rightarrow> 'p) \<Rightarrow> ('p \<Rightarrow> real) \<Rightarrow> string \<Rightarrow> nat list \<Rightarrow> 'p train_state \<Rightarrow> 'p train_state" where
  "training_loop train_epoch validate model_type [] st = st"
| "training_loop train_epoch validate model_type (epoch # rest) st =
     (let st' = epoch_body train_epoch validate model_type st epoch
      in if patience_counter st' \<ge> early_stopping_patience then st'
         else training_loop train_epoch validate model_type rest st')"

text \<open>
  \<^verbatim>\<open>main\<close> from the initial state to the model that the test evaluation runs on:
  \<^verbatim>\<open>model.load_state_dict(torch.load(model_save_path))\<close> after the loop.
\<close>

definition train_main ::
  "(nat \<Rightarrow> 'p \<Rightarrow> 'p) \<Rightarrow> ('p \<Rightarrow> real) \<Rightarrow> string \<Rightarrow> 'p \<Rightarrow> (string \<Rightarrow> 'p option) \<Rightarrow>
   error + 'p train_state" where
  "train_main train_epoch validate model_type initial disk =
     (let st0 = \<lparr>model_state = initial, best_val_f1 = 0, patience_counter = 0,
                 model_save_path = None, files = disk, history_val_f1 = [], saved_epochs = []\<rparr>;
          st = training_loop train_epoch validate model_type [0 ..< num_epochs] st0
      in case model_save_path st of
           None \<Rightarrow> Inl (UnboundLocalError ''model_save_path'')
         | Some path \<Rightarrow>
             (case files st path of
                None \<Rightarrow> Inl (FileNotFoundError path)
              | Some checkpoint \<Rightarrow> Inr (st\<lparr>model_state := checkpoint\<rparr>)))"

text \<open>
  The invariant of the loop: the tracked best is the largest F1 seen so far (or the initial
  0), and once the path is bound the file at it holds parameters whose F1 is the tracked
  best.
\<close>

definition checkpoint_inv :: "('p \<Rightarrow> real) \<Rightarrow> 'p train_state \<Rightarrow> bool" where
  "checkpoint_inv va st =
     (best_val_f1 st = foldl max 0 (history_val_f1 st) \<and>
      (case model_save_path st of
         None \<Rightarrow> best_val_f1 st = 0
       | Some path \<Rightarrow> (case files st path of None \<Rightarrow> False | Some m \<Rightarrow> va m = best_val_f1 st)))"

section \<open>models: Conformer and AudioSpectrogramTransformer, on tensor shapes\<close>

text \<open>
  The forward passes are modelled on the shapes of the tensors; the layers of torch
  (\<^verbatim>\<open>nn.Linear\<close>, \<^verbatim>\<open>nn.Conv1d\<close>, \<^verbatim>\<open>nn.Conv2d\<close>, \<^verbatim>\<open>nn.LayerNorm\<close>, ...) by the shape they
  return and the shapes they reject. A shape with a size of zero is rejected at once (no
  loader produces one).
\<close>

type_synonym shape = "nat list"

text \<open>Sequencing of calls that can raise.\<close>

definition and_then :: "error + 'a \<Rightarrow> ('a \<Rightarrow> error + 'b) \<Rightarrow> error + 'b" where
  "and_then r f = (case r of Inl e \<Rightarrow> Inl e | Inr x \<Rightarrow> f x)"

subsection \<open>models/conformer\_model.py\<close>

record Conformer =
  input_dim :: nat
  hidden_dim :: nat
  num_classes :: nat
  num_layers :: nat
  num_heads :: nat
  kernel_size :: nat
  pe_max_len :: nat

text \<open>
  \<^verbatim>\<open>Conformer.__init__\<close>. \<^verbatim>\<open>PositionalEncoding\<close> fills the odd columns of \<open>pe\<close> with as
  many cosines as there are even columns, which fails for an odd width; a block divides the
  width by the number of heads and raises the quotient to a negative power.
\<close>

definition Conformer_init ::
  "nat \<Rightarrow> nat \<Rightarrow> nat \<Rightarrow> nat \<Rightarrow> nat \<Rightarrow> nat \<Rightarrow> error + Conformer" where
  "Conformer_init input_dim' hidden_dim' num_classes' num_layers' num_heads' kernel_size' =
     (if odd hidden_dim' then Inl (RuntimeError ''shape mismatch in PositionalEncoding'')
      else if 0 < num_layers' \<and> (num_heads' = 0 \<or> hidden_dim' div num_heads' = 0)
      then Inl (ZeroDivisionError ''dim // num_heads, head_dim ** -0.5'')
      else Inr \<lparr>input_dim = input_dim', hidden_dim = hidden_dim', num_classes = num_classes',
                num_layers = num_layers', num_heads = num_heads', kernel_size = kernel_size',
                pe_max_len = 5000\<rparr>)"

text \<open>
  One \<^verbatim>\<open>ConformerBlock\<close> on a tensor of shape \<open>(b, n, dim)\<close>: the attention splits the
  width into heads (\<^verbatim>\<open>rearrange\<close> needs \<open>num_heads\<close> to divide it); the depthwise
  convolution with padding \<open>(kernel_size - 1) div 2\<close> returns
  \<open>conv_out_len kernel_size n\<close> frames, which the residual sum needs to be \<open>n\<close> again (or 1, which broadcasts);
  \<^verbatim>\<open>BatchNorm1d\<close> in training mode needs more than one value per channel.
\<close>

definition padded_len :: "nat \<Rightarrow> nat \<Rightarrow> nat" where
  "padded_len k n = n + 2 * ((k - 1) div 2)"

definition conv_out_len :: "nat \<Rightarrow> nat \<Rightarrow> nat" where
  "conv_out_len k n = padded_len k n - k + 1"

definition ConformerBlock_forward :: "Conformer \<Rightarrow> bool \<Rightarrow> nat \<times> nat \<Rightarrow> error + nat \<times> nat" where
  "ConformerBlock_forward self training bn =
     (case bn of (b, n) \<Rightarrow>
        if hidden_dim self mod num_heads self \<noteq> 0
        then Inl (RuntimeError ''rearrange: the width is not divisible by the number of heads'')
        else if padded_len (kernel_size self) n < kernel_size self
        then Inl (RuntimeError ''conv1d: kernel size cannot be greater than actual input size'')
        else if training \<and> b * conv_out_len (kernel_size self) n \<le> 1
        then Inl (ValueError ''Expected more than 1 value per channel when training'')
        else if conv_out_len (kernel_size self) n \<noteq> n \<and> conv_out_len (kernel_size self) n \<noteq> 1
        then Inl (RuntimeError ''the size of tensor a must match the size of tensor b'')
        else Inr (b, n))"

fun Conformer_layers :: "Conformer \<Rightarrow> bool \<Rightarrow> nat \<Rightarrow> nat \<times> nat \<Rightarrow> error + nat \<times> nat" where
  "Conformer_layers self training 0 bn = Inr bn"
| "Conformer_layers self training (Suc k) bn =
     and_then (ConformerBlock_forward self training bn) (Conformer_layers self training k)"

text \<open>
  \<^verbatim>\<open>Conformer.forward(x)\<close> on the shape of \<open>x\<close>; the result is the shape of the logits.
  \<open>training\<close> is the mode of the module (\<^verbatim>\<open>model.train()\<close> / \<^verbatim>\<open>model.eval()\<close>).
\<close>

definition Conformer_forward :: "Conformer \<Rightarrow> bool \<Rightarrow> shape \<Rightarrow> error + shape" where
  "Conformer_forward self training x_shape =
     (case x_shape of
        [b, c, f, t] \<Rightarrow>
          if b = 0 \<or> c = 0 \<or> f = 0 \<or> t = 0 then Inl (RuntimeError ''empty tensor'')
          else if b * c * f * t \<noteq> b * t * f
          then Inl (RuntimeError ''reshape: shape is invalid for input size'')
          else if f \<noteq> input_dim self
          then Inl (RuntimeError ''mat1 and mat2 shapes cannot be multiplied'')
          else if pe_max_len self < t
          then Inl (RuntimeError ''the size of tensor a must match the size of tensor b'')
          else
            and_then (Conformer_layers self training (num_layers self) (b, t))
              (\<lambda>bn. Inr [fst bn, num_classes self])
      | _ \<Rightarrow> Inl (ValueError ''not enough values to unpack (expected 4)''))"

subsection \<open>models/ast\_model.py\<close>

record PatchEmbed =
  img_size :: "nat \<times> nat"
  patch_size :: "nat \<times> nat"
  in_channels :: nat
  embed_dim :: nat
  num_patches :: nat

definition PatchEmbed_init :: "nat \<times> nat \<Rightarrow> nat \<times> nat \<Rightarrow> nat \<Rightarrow> nat \<Rightarrow> error + PatchEmbed" where
  "PatchEmbed_init img_size' patch_size' in_channels' embed_dim' =
     (if fst patch_size' = 0 \<or> snd patch_size' = 0
      then Inl (ZeroDivisionError ''integer division or modulo by zero'')
      else Inr \<lparr>img_size = img_size', patch_size = patch_size', in_channels = in_channels',
                embed_dim = embed_dim',
                num_patches =
                  (fst img_size' div fst patch_size') * (snd img_size' div snd patch_size')\<rparr>)"

text \<open>
  \<^verbatim>\<open>PatchEmbed.forward(x)\<close>. The statement \<^verbatim>\<open>B, C, F, T = x.shape\<close> binds the name
  \<open>F\<close> to the number of frequency bins for the whole function, so in the branch for an
  input smaller than \<open>img_size\<close> the call \<^verbatim>\<open>F.pad(x, padding)\<close> looks \<open>pad\<close> up on an
  integer and raises. Otherwise the strided convolution cuts the input into patches.
\<close>

definition PatchEmbed_forward :: "PatchEmbed \<Rightarrow> shape \<Rightarrow> error + shape" where
  "PatchEmbed_forward self x_shape =
     (case x_shape of
        [B, C, F, T] \<Rightarrow>
          if F \<le> fst (img_size self) \<and> T \<le> snd (img_size self) then
            if F < fst (img_size self) \<or> T < snd (img_size self)
            then Inl (AttributeError ''int object has no attribute pad'')
            else if C \<noteq> in_channels self
            then Inl (RuntimeError ''conv2d: number of input channels'')
            else if F < fst (patch_size self) \<or> T < snd (patch_size self)
            then Inl (RuntimeError ''conv2d: kernel size cannot be greater than actual input size'')
            else Inr [B, ((F - fst (patch_size self)) div fst (patch_size self) + 1)
                          * ((T - snd (patch_size self)) div snd (patch_size self) + 1),
                      embed_dim self]
          else Inl (AssertionError ''Input size does not match model expected size'')
      | _ \<Rightarrow> Inl (ValueError ''not enough values to unpack (expected 4)''))"

record AudioSpectrogramTransformer =
  patch_embed :: PatchEmbed
  ast_num_classes :: nat
  depth :: nat
  ast_num_heads :: nat

text \<open>
  \<^verbatim>\<open>self.representation\<close> is \<^verbatim>\<open>nn.Identity()\<close> without a \<open>representation_size\<close> and an
  \<^verbatim>\<open>nn.Sequential\<close> with one; \<^verbatim>\<open>self.representation.out_features\<close> is an attribute of
  neither.
\<close>

definition representation_out_features :: "nat option \<Rightarrow> error + nat" where
  "representation_out_features representation_size =
     (case representation_size of
        None \<Rightarrow> Inl (AttributeError ''Identity object has no attribute out_features'')
      | Some r \<Rightarrow>
          if r = 0 then Inl (AttributeError ''Identity object has no attribute out_features'')
          else Inl (AttributeError ''Sequential object has no attribute out_features''))"

text \<open>
  \<^verbatim>\<open>AudioSpectrogramTransformer.__init__\<close>: the head is built from
  \<^verbatim>\<open>self.representation.out_features\<close>.
\<close>

definition AudioSpectrogramTransformer_init ::
  "nat \<times> nat \<Rightarrow> nat \<times> nat \<Rightarrow> nat \<Rightarrow> nat \<Rightarrow> nat \<Rightarrow> nat \<Rightarrow> nat \<Rightarrow> nat option \<Rightarrow>
   error + AudioSpectrogramTransformer" where
  "AudioSpectrogramTransformer_init img_size' patch_size' in_channels' num_classes' embed_dim'
       depth' num_heads' representation_size =
     and_then (PatchEmbed_init img_size' patch_size' in_channels' embed_dim')
       (\<lambda>pe. if 0 < depth' \<and> (num_heads' = 0 \<or> embed_dim' div num_heads' = 0)
             then Inl (ZeroDivisionError ''dim // num_heads, head_dim ** -0.5'')
             else and_then (representation_out_features representation_size)
               (\<lambda>out_features.
                  Inr \<lparr>patch_embed = pe, ast_num_classes = num_classes', depth = depth',
                       ast_num_heads = num_heads'\<rparr>))"

text \<open>
  \<^verbatim>\<open>AudioSpectrogramTransformer.forward(x)\<close> on shapes: the patches, the class token in
  front, the position embedding of \<open>num_patches + 1\<close> rows added, the blocks (the attention
  reshapes the width into heads), the class token's row, the head.
\<close>

definition AudioSpectrogramTransformer_forward ::
  "AudioSpectrogramTransformer \<Rightarrow> shape \<Rightarrow> error + shape" where
  "AudioSpectrogramTransformer_forward self x_shape =
     and_then (PatchEmbed_forward (patch_embed self) x_shape)
       (\<lambda>p. case p of
          [B, N, D] \<Rightarrow>
            if num_patches (patch_embed self) + 1 < N + 1
            then Inl (RuntimeError ''the size of tensor a must match the size of tensor b'')
            else if 0 < depth self \<and> D mod ast_num_heads self \<noteq> 0
            then Inl (RuntimeError ''reshape: shape is invalid for input size'')
            else Inr [B, ast_num_classes self]
        | _ \<Rightarrow> Inl (RuntimeError ''unexpected patch tensor''))"

subsection \<open>create\_model (train.py and evaluate.py pass the same arguments)\<close>

datatype model = ConformerModel Conformer | ASTModel AudioSpectrogramTransformer

definition create_model :: "string \<Rightarrow> nat \<Rightarrow> error + model" where
  "create_model model_type n_classes =
     (if model_type = ''conformer''
      then and_then (Conformer_init 128 256 n_classes 6 8 31) (\<lambda>m. Inr (ConformerModel m))
      else and_then (AudioSpectrogramTransformer_init (128, 1024) (16, 16) 1 n_classes 768 12 12 None)
             (\<lambda>m. Inr (ASTModel m)))"

definition forward :: "model \<Rightarrow> bool \<Rightarrow> shape \<Rightarrow> error + shape" where
  "forward m training x_shape =
     (case m of
        ConformerModel c \<Rightarrow> Conformer_forward c training x_shape
      | ASTModel a \<Rightarrow> AudioSpectrogramTransformer_forward a x_shape)"

section \<open>evaluate.py: main\<close>

text \<open>
  What \<^verbatim>\<open>main\<close> builds up: the dict \<open>model_results\<close> (in insertion order), the lines
  logged, and the picture files written.
\<close>

record 'm eval_state =
  model_results :: "(string \<times> 'm) list"
  eval_log :: "string list"
  artifacts :: "string list"

text \<open>\<^verbatim>\<open>config['models']\<close>: each architecture with its checkpoint path, in dict order.\<close>

definition config_models :: "(string \<times> string) list" where
  "config_models =
     [(''conformer'', ''checkpoints/best_model_conformer.pt''),
      (''ast'', ''checkpoints/best_model_ast.pt'')]"

text \<open>
  The body of the loop over the architectures. \<open>run model checkpoint\<close> stands for loading
  the checkpoint into the model, \<^verbatim>\<open>evaluate_model\<close> and the two plots (library work on
  tensors); it returns the metrics or the exception raised.
\<close>

definition evaluate_one ::
  "(string \<Rightarrow> bool) \<Rightarrow> (model \<Rightarrow> string \<Rightarrow> error + 'm) \<Rightarrow> nat \<Rightarrow> 'm eval_state \<Rightarrow>
   string \<times> string \<Rightarrow> error + 'm eval_state" where
  "evaluate_one path_exists run n_classes st mc =
     (case mc of (model_name, checkpoint) \<Rightarrow>
        if \<not> path_exists checkpoint then
          Inr (st\<lparr>eval_log := eval_log st @
                     [''WARNING Model checkpoint '' @ checkpoint @ '' not found. Skipping evaluation.'']\<rparr>)
        else
          and_then (create_model model_name n_classes)
            (\<lambda>model. and_then (run model checkpoint)
               (\<lambda>metrics.
                  Inr (st\<lparr>model_results := model_results st @ [(model_name, metrics)],
                          artifacts := artifacts st @
                            [''evaluation_results/'' @ model_name @ ''_roc_curves.png'',
                             ''evaluation_results/'' @ model_name @ ''_confusion_matrix.png''],
                          eval_log := eval_log st @ [''INFO '' @ model_name @ '' Results'']\<rparr>))))"

text \<open>
  \<^verbatim>\<open>main\<close> from the loop on: the comparison is drawn only for more than one result.
\<close>

definition evaluate_main ::
  "(string \<Rightarrow> bool) \<Rightarrow> (model \<Rightarrow> string \<Rightarrow> error + 'm) \<Rightarrow> nat \<Rightarrow> error + 'm eval_state" where
  "evaluate_main path_exists run n_classes =
     and_then
       (for_each (evaluate_one path_exists run n_classes) config_models
          \<lparr>model_results = [], eval_log = [], artifacts = []\<rparr>)
       (\<lambda>st. let st = (if length (model_results st) > 1
                       then st\<lparr>artifacts := artifacts st @ [''evaluation_results/model_comparison.png'']\<rparr>
                       else st)
             in Inr (st\<lparr>eval_log := eval_log st @ [''INFO Evaluation complete!'']\<rparr>))"

section \<open>validate.py: load_checkpoint\<close>

text \<open>
  \<^verbatim>\<open>load_checkpoint(model, checkpoint_path)\<close>: whether the checkpoint was loaded, and the
  line logged. \<open>load_into\<close> stands for \<^verbatim>\<open>model.load_state_dict(torch.load(...))\<close>.
\<close>

definition load_checkpoint ::
  "(string \<Rightarrow> bool) \<Rightarrow> ('a \<Rightarrow> string \<Rightarrow> error + 'a) \<Rightarrow> 'a \<Rightarrow> string \<Rightarrow> error + ('a \<times> bool \<times> string)" where
  "load_checkpoint path_exists load_into m checkpoint_path =
     (if path_exists checkpoint_path then
        and_then (load_into m checkpoint_path)
          (\<lambda>m'. Inr (m', True, ''INFO Loaded model from '' @ checkpoint_path))
      else Inr (m, False, ''ERROR Checkpoint '' @ checkpoint_path @ '' not found''))"

section \<open>Checkpoints: state\_dict, torch.save, torch.load, load\_state\_dict\<close>

text \<open>
  A state dict maps the names of the parameters and buffers of a module to tensors (a shape
  and the elements). A module object is what \<^verbatim>\<open>create_model\<close> built, the state it holds
  and its mode.
\<close>

type_synonym tensor = "shape \<times> real list"

type_synonym state_dict = "(string \<times> tensor) list"

record module =
  arch :: model
  state :: state_dict
  training_mode :: bool

text \<open>
  Constructing a model object as both scripts do: \<^verbatim>\<open>create_model\<close>, with \<open>init\<close> the
  (random) initial values of its parameters and buffers. A new module is in training mode.
\<close>

definition construct :: "(model \<Rightarrow> state_dict) \<Rightarrow> string \<Rightarrow> nat \<Rightarrow> error + module" where
  "construct init model_type n_classes =
     and_then (create_model model_type n_classes)
       (\<lambda>a. Inr \<lparr>arch = a, state = init a, training_mode = True\<rparr>)"

text \<open>\<^verbatim>\<open>model.state_dict()\<close>.\<close>

definition state_dict_of :: "module \<Rightarrow> state_dict" where
  "state_dict_of m = state m"

text \<open>The names of a state dict with the shapes of their tensors.\<close>

definition layout :: "state_dict \<Rightarrow> (string \<times> shape) set" where
  "layout sd = set (map (\<lambda>(name, t). (name, fst t)) sd)"

text \<open>
  \<^verbatim>\<open>torch.save(obj, path)\<close> and \<^verbatim>\<open>torch.load(path)\<close> on a disk of checkpoint files.
\<close>

definition torch_save ::
  "state_dict \<Rightarrow> string \<Rightarrow> (string \<Rightarrow> state_dict option) \<Rightarrow> (string \<Rightarrow> state_dict option)" where
  "torch_save obj path disk = disk(path \<mapsto> obj)"

definition torch_load :: "string \<Rightarrow> (string \<Rightarrow> state_dict option) \<Rightarrow> error + state_dict" where
  "torch_load path disk =
     (case disk path of None \<Rightarrow> Inl (FileNotFoundError path) | Some obj \<Rightarrow> Inr obj)"

text \<open>
  \<^verbatim>\<open>model.load_state_dict(sd)\<close> (strict): the names and shapes must be those of the
  module; then the module holds \<open>sd\<close>.
\<close>

definition load_state_dict :: "module \<Rightarrow> state_dict \<Rightarrow> error + module" where
  "load_state_dict m sd =
     (if layout sd = layout (state m) then Inr (m\<lparr>state := sd\<rparr>)
      else Inl (RuntimeError ''Error(s) in loading state_dict''))"

text \<open>
  Inference (\<^verbatim>\<open>model.eval()\<close>, then \<^verbatim>\<open>model(x)\<close>): \<open>net\<close> computes the output from the
  architecture, the state and the input.
\<close>

definition inference :: "(model \<Rightarrow> state_dict \<Rightarrow> 'x \<Rightarrow> 'y) \<Rightarrow> module \<Rightarrow> 'x \<Rightarrow> 'y" where
  "inference net m x = net (arch m) (state m) x"

text \<open>
  evaluate.py, \<^verbatim>\<open>main\<close>: the model for \<open>model_name\<close> is constructed and the checkpoint
  at its configured path loaded into it.
\<close>

definition evaluate_load ::
  "(model \<Rightarrow> state_dict) \<Rightarrow> (string \<Rightarrow> state_dict option) \<Rightarrow> string \<Rightarrow> nat \<Rightarrow> error + module" where
  "evaluate_load init disk model_name n_classes =
     (case map_of config_models model_name of
        None \<Rightarrow> Inl (ValueError ''no such model'')
      | Some checkpoint \<Rightarrow>
          and_then (construct init model_name n_classes)
            (\<lambda>m. and_then (torch_load checkpoint disk) (load_state_dict m)))"

section \<open>Properties\<close>

subsection \<open>Thresholding\<close>

lemma sigmoid_gt_half_iff: "sigmoid x > 5 / 10 \<longleftrightarrow> x > 0"
proof -
  have pos: "0 < 1 + exp (- x)" by (simp add: add_pos_pos)
  have "sigmoid x > 5 / 10 \<longleftrightarrow> 1 + exp (- x) < 2"
    unfolding sigmoid_def using pos by (simp add: field_simps)
  also have "\<dots> \<longleftrightarrow> exp (- x) < 1" by auto
  also have "\<dots> \<longleftrightarrow> x > 0" by simp
  finally show ?thesis .
qed

lemma gt_half_mono: "p1 \<le> p2 \<Longrightarrow> gt_half p1 \<le> gt_half p2"
  by (simp add: gt_half_def)

lemma sigmoid_mono: "x \<le> y \<Longrightarrow> sigmoid x \<le> sigmoid y"
  unfolding sigmoid_def by (intro divide_left_mono) (auto simp: add_pos_pos)

text \<open>
  C7. The rule of evaluate.py thresholds the sigmoid of the logit at 0.5; the rule of
  train.py thresholds the logit itself. On the logit 1/4 (probability about 0.56) the
  first predicts 1 and the second predicts 0: the two scripts do not use one rule.
\<close>

theorem train_preds_differ_from_evaluate_preds:
  "evaluate_model_preds [[1 / 4]] = [[1]] \<and> train_epoch_preds [[1 / 4]] = [[0]]"
proof -
  have "sigmoid (1 / 4) > 5 / 10"
    using sigmoid_gt_half_iff [of "1 / 4"] by simp
  then show ?thesis
    by (simp add: evaluate_model_preds_def train_epoch_preds_def gt_half_def)
qed

subsection \<open>validate.py on a dataset with file names\<close>

lemma getitem_with_filenames:
  assumes "filenames ds = Some fns" "idx < length (features ds)"
    "length (labels ds) = length (features ds)" "length fns = length (features ds)"
  shows "\<exists>s. getitem ds r idx = Inr s \<and> length s = 3"
  unfolding getitem_def Let_def using assms by simp

lemma fetch_with_filenames:
  assumes "filenames ds = Some fns"
    "length (labels ds) = length (features ds)" "length fns = length (features ds)"
  shows "\<forall>i\<in>set idxs. i < length (features ds) \<Longrightarrow>
     \<exists>ss. fetch ds rnd idxs = Inr ss \<and> length ss = length idxs \<and>
          (\<forall>s\<in>set ss. length s = 3)"
proof (induction idxs)
  case Nil
  then show ?case by simp
next
  case (Cons i idxs)
  have "\<forall>i\<in>set idxs. i < length (features ds)" using Cons.prems by simp
  from Cons.IH [OF this] obtain ss where ss: "fetch ds rnd idxs = Inr ss" "length ss = length idxs"
     "\<forall>s\<in>set ss. length s = 3" by blast
  from Cons.prems have "i < length (features ds)" by simp
  from getitem_with_filenames [OF assms(1) this assms(2,3)]
  obtain s where s: "getitem ds (rnd i) i = Inr s" "length s = 3"
    by blast
  have 1: "fetch ds rnd (i # idxs) = Inr (s # ss)" by (simp add: ss(1) s(1))
  have 2: "length (s # ss) = length (i # idxs)" by (simp add: ss(2))
  have 3: "\<forall>t\<in>set (s # ss). length t = 3"
    using ss(3) s(2) by simp
  from 1 2 3 show ?case by blast
qed

lemma default_collate_length:
  "ss \<noteq> [] \<Longrightarrow> length (default_collate ss) = length (hd ss)"
  by (cases ss) (simp_all add: default_collate_def)

lemma unpack2_three:
  "length xs = 3 \<Longrightarrow> unpack2 xs = Inl (ValueError ''too many values to unpack (expected 2)'')"
  by (auto simp: numeral_3_eq_3 length_Suc_conv)

lemma index_batches_first:
  "0 < bs \<Longrightarrow> 0 < n \<Longrightarrow> \<exists>rest. index_batches bs 0 n = [0 ..< min bs n] # rest"
  by (cases n) auto

text \<open>
  C10. A dataset built with file names (as validate.py's \<^verbatim>\<open>main\<close> builds it) yields
  samples with the three keys feature, label and filename; \<^verbatim>\<open>inputs, labels = batch\<close>
  then raises ValueError on the first batch, whatever the model and the metric functions are,
  so \<^verbatim>\<open>validate_model\<close> computes no metrics.
\<close>

theorem validate_model_fails_on_first_batch:
  assumes "filenames ds = Some fns" and "features ds \<noteq> []"
    and "length (labels ds) = length (features ds)"
    and "length fns = length (features ds)"
    and "0 < batch_size"
  shows "(\<exists>sample. getitem ds (rnd 0) 0 = Inr sample
            \<and> map fst sample = [''feature'', ''label'', ''filename''])
       \<and> validate_model net score (DataLoader ds batch_size rnd) =
           Inl (ValueError ''too many values to unpack (expected 2)'')"
proof -
  let ?n = "length (features ds)"
  from assms(2) have n: "0 < ?n" by simp
  have keys: "\<exists>sample. getitem ds (rnd 0) 0 = Inr sample
            \<and> map fst sample = [''feature'', ''label'', ''filename'']"
    unfolding getitem_def Let_def using assms(1,3,4) n by simp
  obtain rest where ib: "index_batches batch_size 0 ?n = [0 ..< min batch_size ?n] # rest"
    using index_batches_first [OF assms(5) n] by blast
  have "\<forall>i\<in>set [0 ..< min batch_size ?n]. i < ?n" by simp
  from fetch_with_filenames [OF assms(1,3,4) this, of rnd]
  obtain ss where ss: "fetch ds rnd [0 ..< min batch_size ?n] = Inr ss"
    "length ss = length [0 ..< min batch_size ?n]"
    "\<forall>s\<in>set ss. length s = 3" by blast
  from ss(2) n assms(5) have ne: "ss \<noteq> []" by (auto simp: min_def split: if_splits)
  then have "hd ss \<in> set ss" by simp
  with ss(3) have "length (hd ss) = 3" by blast
  then have "length (dict_iter (default_collate ss)) = 3"
    using default_collate_length [OF ne] by (simp add: dict_iter_def)
  then have body: "validate_model_body net (default_collate ss) acc =
      Inl (ValueError ''too many values to unpack (expected 2)'')" for acc
    by (simp add: validate_model_body_def unpack2_three)
  have "validate_model net score (DataLoader ds batch_size rnd) =
           Inl (ValueError ''too many values to unpack (expected 2)'')"
    by (simp add: validate_model_def DataLoader_def len_def ib ss(1) body)
  with keys show ?thesis by (rule conjI)
qed

theorem validate_model_fails_on_first_batch_witness:
  "getitem (validate_py_test_dataset [[[[1, 2]]]] [[0, 1]] [''a.wav''])
       \<lparr>u_freq = 0, freq_band = (0, 0), u_time = 0, time_band = (0, 0)\<rparr> 0
     = Inr [(''feature'', PSpec [[[1, 2]]]), (''label'', PLabel [0, 1]), (''filename'', PStr ''a.wav'')]
   \<and> validate_model (\<lambda>_. []) (\<lambda>_ _. ())
       (DataLoader (validate_py_test_dataset [[[[1, 2]]]] [[0, 1]] [''a.wav'']) 32
          (\<lambda>_. \<lparr>u_freq = 0, freq_band = (0, 0), u_time = 0, time_band = (0, 0)\<rparr>))
     = Inl (ValueError ''too many values to unpack (expected 2)'')"
proof -
  have "getitem (validate_py_test_dataset [[[[1, 2]]]] [[0, 1]] [''a.wav''])
       \<lparr>u_freq = 0, freq_band = (0, 0), u_time = 0, time_band = (0, 0)\<rparr> 0
     = Inr [(''feature'', PSpec [[[1, 2]]]), (''label'', PLabel [0, 1]), (''filename'', PStr ''a.wav'')]"
    by (simp add: getitem_def validate_py_test_dataset_def HeartSoundDataset_init_def)
  moreover have "validate_model (\<lambda>_. []) (\<lambda>_ _. ())
       (DataLoader (validate_py_test_dataset [[[[1, 2]]]] [[0, 1]] [''a.wav'']) 32
          (\<lambda>_. \<lparr>u_freq = 0, freq_band = (0, 0), u_time = 0, time_band = (0, 0)\<rparr>))
     = Inl (ValueError ''too many values to unpack (expected 2)'')"
    using validate_model_fails_on_first_batch
      [of "validate_py_test_dataset [[[[1, 2]]]] [[0, 1]] [''a.wav'']" "[''a.wav'']" 32
          "\<lambda>_. \<lparr>u_freq = 0, freq_band = (0, 0), u_time = 0, time_band = (0, 0)\<rparr>"
          "\<lambda>_. []" "\<lambda>_ _. ()"]
    by (simp add: validate_py_test_dataset_def HeartSoundDataset_init_def)
  ultimately show ?thesis by (rule conjI)
qed

subsection \<open>Augmentation in \<^verbatim>\<open>__getitem__\<close>\<close>

lemma getitem_without_augment:
  assumes "\<not> (augment ds \<and> truthy (config ds))" and "transform ds = None"
    and "getitem ds rnd idx = Inr sample"
  shows "idx < length (features ds) \<and> map_of sample ''feature'' = Some (PSpec (features ds ! idx))"
proof -
  from assms(3) have i: "idx < length (features ds)"
    unfolding getitem_def by (simp split: if_splits)
  from assms(3) have l: "idx < length (labels ds)"
    unfolding getitem_def by (simp split: if_splits)
  show ?thesis
  proof (cases "filenames ds")
    case None
    with assms i l show ?thesis unfolding getitem_def Let_def by auto
  next
    case (Some fns)
    with assms i l show ?thesis unfolding getitem_def Let_def by (auto split: if_splits)
  qed
qed

text \<open>
  C4 (as amended). Only a dataset built with \<^verbatim>\<open>augment=True\<close> and a config masks a
  sample. The datasets that train.py, evaluate.py and validate.py build are built without:
  every sample fetched from them, in training as in evaluation, carries exactly the stored
  feature tensor, whatever the random draws are.
\<close>

theorem fetched_feature_is_stored:
  assumes "ds = train_py_dataset fs ls \<or> ds = evaluate_py_test_dataset fs ls fns
           \<or> ds = validate_py_test_dataset fs ls fns"
    and "getitem ds rnd idx = Inr sample"
  shows "idx < length fs \<and> map_of sample ''feature'' = Some (PSpec (fs ! idx))"
proof -
  from assms(1) have "\<not> (augment ds \<and> truthy (config ds))" "transform ds = None" "features ds = fs"
    by (auto simp: train_py_dataset_def evaluate_py_test_dataset_def validate_py_test_dataset_def
         HeartSoundDataset_init_def)
  with getitem_without_augment [OF this(1,2) assms(2)] show ?thesis by simp
qed

theorem fetched_feature_is_stored_witness:
  "getitem (train_py_dataset [[[[1, 2], [3, 4]]]] [[0, 1]])
      \<lparr>u_freq = 9 / 10, freq_band = (0, 1), u_time = 9 / 10, time_band = (0, 1)\<rparr> 0
     = Inr [(''feature'', PSpec [[[1, 2], [3, 4]]]), (''label'', PLabel [0, 1])]
   \<and> (0::nat) < length [[[[1, 2], [3, 4 :: real]]]]
   \<and> map_of [(''feature'', PSpec [[[1, 2], [3, 4]]]), (''label'', PLabel [0, 1])] ''feature''
       = Some (PSpec ([[[[1, 2], [3, 4]]]] ! 0))"
proof -
  have g: "getitem (train_py_dataset [[[[1, 2], [3, 4]]]] [[0, 1]])
      \<lparr>u_freq = 9 / 10, freq_band = (0, 1), u_time = 9 / 10, time_band = (0, 1)\<rparr> 0
     = Inr [(''feature'', PSpec [[[1, 2], [3, 4]]]), (''label'', PLabel [0, 1])]"
    by (simp add: getitem_def train_py_dataset_def HeartSoundDataset_init_def)
  from fetched_feature_is_stored [OF disjI1 [OF refl] g] g show ?thesis by simp
qed

text \<open>
  C4 as stated fails for training: with draws that select both masks, the training dataset
  of train.py returns the stored feature unchanged, where a dataset built with
  \<^verbatim>\<open>augment=True\<close> and a config returns the masked one.
\<close>

theorem training_fetch_is_not_augmented:
  "getitem (train_py_dataset [[[[1, 2], [3, 4]]]] [[0, 1]])
      \<lparr>u_freq = 9 / 10, freq_band = (0, 1), u_time = 9 / 10, time_band = (0, 1)\<rparr> 0
     = Inr [(''feature'', PSpec [[[1, 2], [3, 4]]]), (''label'', PLabel [0, 1])]
   \<and> getitem (HeartSoundDataset_init [[[[1, 2], [3, 4]]]] [[0, 1]] None None True ObjectConfig)
      \<lparr>u_freq = 9 / 10, freq_band = (0, 1), u_time = 9 / 10, time_band = (0, 1)\<rparr> 0
     = Inr [(''feature'', PSpec [[[0, 0], [0, 4]]]), (''label'', PLabel [0, 1])]"
  by (simp add: getitem_def train_py_dataset_def HeartSoundDataset_init_def
        FrequencyMasking_def TimeMasking_def mask_band_def enumerate_eq_zip upt_rec)

subsection \<open>The shape of the mel spectrogram\<close>

lemma single_channel_cases:
  assumes "length (w :: waveform) = 1"
  obtains c where "w = [c]"
  using assms by (cases w) auto

lemma pad_or_trim_single:
  fixes c :: "real list"
  shows "\<exists>c'. (if shape1 [c] < L then map (\<lambda>d. d @ replicate (L - shape1 [c]) 0) [c]
               else if L < shape1 [c] then map (take L) [c] else [c]) = [c'] \<and> length c' = L"
  by (auto simp: shape1_def)

lemma load_audio_file_shape:
  assumes "load lib file_path = Inr (w, sr)" and "w \<noteq> []" and "0 < target_sample_length cfg"
  shows "\<exists>c. load_audio_file lib file_path cfg = (Some [c], []) \<and> length c = target_sample_length cfg"
proof -
  define w1 where "w1 = (if length w > 1 then mean_dim0 w else w)"
  have "length w1 = 1" using assms(2) by (cases w) (auto simp: w1_def mean_dim0_def)
  then obtain c1 where c1: "w1 = [c1]" by (rule single_channel_cases)
  define c2 where "c2 = (if sr \<noteq> sample_rate cfg then resample lib sr (sample_rate cfg) c1 else c1)"
  have w2: "(if sr \<noteq> sample_rate cfg then map (resample lib sr (sample_rate cfg)) w1 else w1) = [c2]"
    by (simp add: c1 c2_def)
  obtain c3 where c3: "(if shape1 [c2] < target_sample_length cfg
               then map (\<lambda>d. d @ replicate (target_sample_length cfg - shape1 [c2]) 0) [c2]
               else if target_sample_length cfg < shape1 [c2]
               then map (take (target_sample_length cfg)) [c2] else [c2]) = [c3]"
      and l3: "length c3 = target_sample_length cfg"
    using pad_or_trim_single [of c2 "target_sample_length cfg"] by blast
  have ne: "concat [c3] \<noteq> []" using l3 assms(3) by auto
  have "load_audio_file lib file_path cfg =
          (Some (map (map (\<lambda>v. v / (foldr max (map abs (concat [c3])) 0 + 1 / 10 ^ 8))) [c3]), [])"
    unfolding load_audio_file_def assms(1) Let_def
    by (simp only: sum.case prod.case w1_def [symmetric] w2 c3 ne if_False)
  then show ?thesis using l3 by simp
qed

lemma length_reflect_pad:
  "p < length x \<Longrightarrow> length (reflect_pad p x) = length x + 2 * p"
  by (simp add: reflect_pad_def)

lemma extract_features_shape:
  assumes "0 < hop_length cfg" "0 < win_length cfg" "win_length cfg \<le> n_fft cfg"
    and "n_fft cfg div 2 < length c"
  shows "\<exists>mel. extract_features lib [c] cfg = Inr mel \<and>
           shape3 mel = cft 1 (n_mels cfg) (n_frames cfg (length c + 2 * (n_fft cfg div 2)))"
proof -
  let ?T = "n_frames cfg (length c + 2 * (n_fft cfg div 2))"
  let ?K = "n_fft cfg div 2 + 1"
  from assms have nz: "n_fft cfg \<noteq> 0" by auto
  define padded where "padded = reflect_pad (n_fft cfg div 2) c"
  define spec where "spec = map (\<lambda>k. map (\<lambda>t. stft_power lib (n_fft cfg) (win_length cfg)
                                                (take (n_fft cfg) (drop (t * hop_length cfg) padded)) k)
                                          [0 ..< n_frames cfg (length padded)])
                               [0 ..< n_fft cfg div 2 + 1]"
  have lp: "length padded = length c + 2 * (n_fft cfg div 2)"
    unfolding padded_def using assms(4) by (rule length_reflect_pad)
  have guard1: "\<not> (hop_length cfg = 0 \<or> n_fft cfg = 0 \<or> win_length cfg = 0 \<or> n_fft cfg < win_length cfg)"
    using assms nz by simp
  have guard2: "\<not> (\<exists>d\<in>set [c]. length d \<le> n_fft cfg div 2)"
    using assms(4) by simp
  have spec: "Spectrogram lib cfg [c] = Inr [spec]"
    unfolding Spectrogram_def Let_def
    by (simp only: guard1 guard2 if_False list.map spec_def padded_def)
  have ls: "length spec = ?K" by (simp add: spec_def)
  have rs: "\<forall>r\<in>set spec. length r = ?T" by (auto simp: spec_def lp)
  from ls obtain r rest where sp: "spec = r # rest" by (cases spec) auto
  with rs have r: "length r = ?T" by simp
  have "MelScale lib (n_mels cfg) (sample_rate cfg) ?K [spec] =
      Inr [map (\<lambda>m. map (\<lambda>t. \<Sum>k\<leftarrow>[0 ..< ?K]. spec ! k ! t * mel_fb lib (n_mels cfg) (sample_rate cfg) ?K k m)
                                       [0 ..< ?T]) [0 ..< n_mels cfg]]"
    using ls by (simp add: MelScale_def sp r)
  then show ?thesis
    by (simp add: extract_features_def spec AmplitudeToDB_def shape3_def cft_def map_replicate_const comp_def)
qed

lemma n_frames_even:
  assumes "even (n_fft cfg)"
  shows "n_frames cfg (L + 2 * (n_fft cfg div 2)) = 1 + L div hop_length cfg"
  using assms by (simp add: n_frames_def)

text \<open>
  C1. Whatever waveform \<^verbatim>\<open>torchaudio.load\<close> returns (any number of channels, any
  length, any sample rate), \<^verbatim>\<open>load_audio_file\<close> returns one channel of exactly
  \<open>target_sample_length\<close> samples and \<^verbatim>\<open>extract_features\<close> turns it into a tensor of
  shape \<open>(1, n_mels, 1 + target_sample_length div hop_length)\<close>. The hypotheses on the
  configuration are those under which torchaudio's STFT accepts the padded waveform; the
  configuration of the repository meets them and gives \<open>(1, 128, 157)\<close>.
\<close>

theorem preprocessing_fixed_shape:
  assumes "load lib file_path = Inr (w, sr)" and "w \<noteq> []"
    and "0 < hop_length cfg" and "0 < win_length cfg" and "win_length cfg \<le> n_fft cfg"
    and "n_fft cfg div 2 < target_sample_length cfg" and "even (n_fft cfg)"
  shows "\<exists>wf mel. load_audio_file lib file_path cfg = (Some wf, []) \<and>
           extract_features lib wf cfg = Inr mel \<and>
           shape3 mel = cft 1 (n_mels cfg) (1 + target_sample_length cfg div hop_length cfg)"
proof -
  from assms(6) have "0 < target_sample_length cfg" by simp
  from load_audio_file_shape [OF assms(1,2) this]
  obtain c where c: "load_audio_file lib file_path cfg = (Some [c], [])"
    "length c = target_sample_length cfg" by blast
  from assms(6) c(2) have "n_fft cfg div 2 < length c" by simp
  from extract_features_shape [OF assms(3-5) this, of lib]
  obtain mel where "extract_features lib [c] cfg = Inr mel"
    "shape3 mel = cft 1 (n_mels cfg) (n_frames cfg (length c + 2 * (n_fft cfg div 2)))" by blast
  with c n_frames_even [OF assms(7)] show ?thesis by auto
qed

lemma Config_class_values:
  "target_sample_length Config_class = 80000" "hop_length Config_class = 512"
  "n_fft Config_class = 1024" "win_length Config_class = 1024" "n_mels Config_class = 128"
  by (simp_all add: Config_class_def)

lemma Config_class_accepted:
  "0 < hop_length Config_class" "0 < win_length Config_class"
  "win_length Config_class \<le> n_fft Config_class"
  "n_fft Config_class div 2 < target_sample_length Config_class" "even (n_fft Config_class)"
  by (simp_all add: Config_class_values)

theorem preprocessing_fixed_shape_witness:
  "\<exists>wf mel. load_audio_file \<lparr>load = (\<lambda>_. Inr ([[1, -2, 3], [3, 2, 1]], 8000)),
                  resample = (\<lambda>_ _ c. c), stft_power = (\<lambda>_ _ _ _. 0), mel_fb = (\<lambda>_ _ _ _ _. 0)\<rparr>
                ''a.wav'' Config_class = (Some wf, []) \<and>
           extract_features \<lparr>load = (\<lambda>_. Inr ([[1, -2, 3], [3, 2, 1]], 8000)),
                  resample = (\<lambda>_ _ c. c), stft_power = (\<lambda>_ _ _ _. 0), mel_fb = (\<lambda>_ _ _ _ _. 0)\<rparr>
                wf Config_class = Inr mel \<and>
           shape3 mel = cft 1 128 157"
  using preprocessing_fixed_shape [of
     "\<lparr>load = (\<lambda>_. Inr ([[1, -2, 3], [3, 2, 1]], 8000)),
                  resample = (\<lambda>_ _ c. c), stft_power = (\<lambda>_ _ _ _. 0), mel_fb = (\<lambda>_ _ _ _ _. 0)\<rparr>"
     "''a.wav''" "[[1, -2, 3], [3, 2, 1]]" 8000 Config_class]
  by (simp add: Config_class_values)

subsection \<open>The loop of process_dataset\<close>

lemma load_audio_file_no_channel:
  assumes "load lib p = Inr ([], sr)"
  shows "fst (load_audio_file lib p cfg) = None"
  unfolding load_audio_file_def assms Let_def by (simp add: shape1_def)

lemma load_audio_file_zero_length:
  assumes "load lib p = Inr (w, sr)" and "w \<noteq> []" and "target_sample_length cfg = 0"
  shows "fst (load_audio_file lib p cfg) = None"
proof -
  define w1 where "w1 = (if length w > 1 then mean_dim0 w else w)"
  have "length w1 = 1" using assms(2) by (cases w) (auto simp: w1_def mean_dim0_def)
  then obtain c1 where c1: "w1 = [c1]" by (rule single_channel_cases)
  define c2 where "c2 = (if sr \<noteq> sample_rate cfg then resample lib sr (sample_rate cfg) c1 else c1)"
  have w2: "(if sr \<noteq> sample_rate cfg then map (resample lib sr (sample_rate cfg)) w1 else w1) = [c2]"
    by (simp add: c1 c2_def)
  obtain c3 where c3: "(if shape1 [c2] < target_sample_length cfg
               then map (\<lambda>d. d @ replicate (target_sample_length cfg - shape1 [c2]) 0) [c2]
               else if target_sample_length cfg < shape1 [c2]
               then map (take (target_sample_length cfg)) [c2] else [c2]) = [c3]"
      and l3: "length c3 = target_sample_length cfg"
    using pad_or_trim_single [of c2 "target_sample_length cfg"] by blast
  have e: "concat [c3] = []" using l3 assms(3) by simp
  have "load_audio_file lib p cfg = (None, [''ERROR Error loading audio file '' @ p])"
    unfolding load_audio_file_def assms(1) Let_def
    by (simp only: sum.case prod.case w1_def [symmetric] w2 c3 e) simp
  then show ?thesis by simp
qed

lemma load_audio_file_Some:
  assumes "load_audio_file lib p cfg = (Some wav, logged)"
  shows "\<exists>c. wav = [c] \<and> length c = target_sample_length cfg \<and> logged = []"
proof (cases "load lib p")
  case (Inl e)
  with assms show ?thesis by (simp add: load_audio_file_def)
next
  case (Inr r)
  obtain w sr where r: "r = (w, sr)" by (cases r)
  have "w \<noteq> []"
    using load_audio_file_no_channel [of lib p sr cfg] Inr r assms by auto
  moreover have "0 < target_sample_length cfg"
    using load_audio_file_zero_length [of lib p w sr cfg] Inr r assms \<open>w \<noteq> []\<close> by auto
  ultimately show ?thesis
    using load_audio_file_shape [of lib p w sr cfg] Inr r assms by auto
qed

lemma load_audio_file_None:
  assumes "load_audio_file lib p cfg = (None, logged)"
  shows "logged = [''ERROR Error loading audio file '' @ p]"
  using assms unfolding load_audio_file_def Let_def
  by (auto split: sum.splits prod.splits if_splits)

text \<open>The feature stored for a readable file.\<close>

lemma process_recording_readable:
  assumes "0 < hop_length cfg" "0 < win_length cfg" "win_length cfg \<le> n_fft cfg"
    and "n_fft cfg div 2 < target_sample_length cfg"
    and "readable lib path_exists cfg r"
  shows "\<exists>mel. process_recording lib path_exists cfg label st r =
           Inr (st\<lparr>features_acc := features_acc st @ [mel],
                   labels_acc := labels_acc st @ [label],
                   filenames_acc := filenames_acc st @ [r @ ''.wav''],
                   processed_count := processed_count st + 1\<rparr>)
         \<and> shape3 mel = cft 1 (n_mels cfg) (n_frames cfg (target_sample_length cfg + 2 * (n_fft cfg div 2)))"
proof -
  let ?p = "file_path_of cfg (r @ ''.wav'')"
  from assms(5) have ex: "path_exists ?p" and "fst (load_audio_file lib ?p cfg) \<noteq> None"
    by (simp_all add: readable_def)
  then obtain wav logged where l: "load_audio_file lib ?p cfg = (Some wav, logged)"
    by (cases "load_audio_file lib ?p cfg") auto
  from load_audio_file_Some [OF l] obtain c where c: "wav = [c]" "length c = target_sample_length cfg"
    "logged = []" by blast
  from assms(4) c(2) have "n_fft cfg div 2 < length c" by simp
  from extract_features_shape [OF assms(1-3) this, of lib]
  obtain mel where m: "extract_features lib [c] cfg = Inr mel"
    "shape3 mel = cft 1 (n_mels cfg) (n_frames cfg (length c + 2 * (n_fft cfg div 2)))" by blast
  have "process_recording lib path_exists cfg label st r =
           Inr (st\<lparr>features_acc := features_acc st @ [mel],
                   labels_acc := labels_acc st @ [label],
                   filenames_acc := filenames_acc st @ [r @ ''.wav''],
                   processed_count := processed_count st + 1\<rparr>)"
    unfolding process_recording_def Let_def by (simp add: ex l c m)
  with m(2) c(2) show ?thesis by auto
qed

lemma process_recording_unreadable:
  assumes "\<not> readable lib path_exists cfg r"
  shows "process_recording lib path_exists cfg label st r =
           Inr (st\<lparr>failed_count := failed_count st + 1,
                   log_acc := log_acc st @ [failure_line path_exists cfg r]\<rparr>)"
proof (cases "path_exists (file_path_of cfg (r @ ''.wav''))")
  case False
  then show ?thesis
    unfolding process_recording_def Let_def by (simp add: failure_line_def)
next
  case True
  with assms have "fst (load_audio_file lib (file_path_of cfg (r @ ''.wav'')) cfg) = None"
    by (simp add: readable_def)
  then obtain logged where l: "load_audio_file lib (file_path_of cfg (r @ ''.wav'')) cfg = (None, logged)"
    by (cases "load_audio_file lib (file_path_of cfg (r @ ''.wav'')) cfg") auto
  from load_audio_file_None [OF l] True l show ?thesis
    unfolding process_recording_def Let_def by (simp add: failure_line_def)
qed

lemma loop_post_refl: "loop_post lib pe cfg [] st st"
  by (simp add: loop_post_def)

lemma loop_post_trans:
  assumes "loop_post lib pe cfg xs st st1" "loop_post lib pe cfg ys st1 st2"
  shows "loop_post lib pe cfg (xs @ ys) st st2"
  using assms unfolding loop_post_def Let_def by auto

lemma loop_post_step:
  assumes "0 < hop_length cfg" "0 < win_length cfg" "win_length cfg \<le> n_fft cfg"
    and "n_fft cfg div 2 < target_sample_length cfg"
  shows "\<exists>st'. process_recording lib pe cfg label st r = Inr st' \<and> loop_post lib pe cfg [(label, r)] st st'"
proof (cases "readable lib pe cfg r")
  case True
  from process_recording_readable [OF assms True, of label st]
  show ?thesis using True by (auto simp: loop_post_def)
next
  case False
  from process_recording_unreadable [OF False, of label st]
  show ?thesis using False by (auto simp: loop_post_def)
qed

lemma process_row_post:
  assumes "0 < hop_length cfg" "0 < win_length cfg" "win_length cfg \<le> n_fft cfg"
    and "n_fft cfg div 2 < target_sample_length cfg"
  shows "\<exists>st'. for_each (process_recording lib pe cfg label) rs st = Inr st' \<and>
           loop_post lib pe cfg (map (\<lambda>r. (label, r)) rs) st st'"
proof (induction rs arbitrary: st)
  case Nil
  show ?case by (simp add: loop_post_refl)
next
  case (Cons r rs)
  from loop_post_step [OF assms, of lib pe label st r]
  obtain st1 where 1: "process_recording lib pe cfg label st r = Inr st1"
    "loop_post lib pe cfg [(label, r)] st st1" by blast
  from Cons.IH [of st1] obtain st2 where 2: "for_each (process_recording lib pe cfg label) rs st1 = Inr st2"
    "loop_post lib pe cfg (map (\<lambda>r. (label, r)) rs) st1 st2" by blast
  from loop_post_trans [OF 1(2) 2(2)] 1(1) 2(1) show ?case by simp
qed

lemma process_rows_post:
  assumes "0 < hop_length cfg" "0 < win_length cfg" "win_length cfg \<le> n_fft cfg"
    and "n_fft cfg div 2 < target_sample_length cfg"
  shows "\<exists>st'. for_each (process_row lib pe cfg) df st = Inr st' \<and>
           loop_post lib pe cfg (references df) st st'"
proof (induction df arbitrary: st)
  case Nil
  show ?case by (simp add: loop_post_refl references_def)
next
  case (Cons row df)
  from process_row_post [OF assms, of lib pe "class_values row" "recording_values row" st]
  obtain st1 where 1: "process_row lib pe cfg st row = Inr st1"
    "loop_post lib pe cfg (map (\<lambda>r. (class_values row, r)) (recording_values row)) st st1"
    by (auto simp: process_row_def)
  from Cons.IH [of st1] obtain st2 where 2: "for_each (process_row lib pe cfg) df st1 = Inr st2"
    "loop_post lib pe cfg (references df) st1 st2" by blast
  from loop_post_trans [OF 1(2) 2(2)] 1(1) 2(1) show ?case by (simp add: references_def)
qed

lemma tiny_paths:
  "file_path_of tiny_config ''x.wav'' = ''/a/x.wav''"
  "file_path_of tiny_config ''y.wav'' = ''/a/y.wav''"
  "file_path_of tiny_config ''z.wav'' = ''/a/z.wav''"
  by (simp_all add: file_path_of_def os_path_join_def tiny_config_def)


subsection \<open>The two splits\<close>

lemma mset_index_rows:
  assumes "mset idx = mset [0 ..< length xs]"
  shows "mset (index_rows xs idx) = mset xs"
proof -
  have "mset (map ((!) xs) idx) = image_mset ((!) xs) (mset idx)" by simp
  also have "\<dots> = image_mset ((!) xs) (mset [0 ..< length xs])" by (simp only: assms)
  also have "\<dots> = mset (map ((!) xs) [0 ..< length xs])" by simp
  also have "\<dots> = mset xs" by (simp only: map_nth)
  finally show ?thesis by (simp add: index_rows_def)
qed

lemma train_test_split_indices:
  assumes "train_test_split shuffle ts y n = Inr (ind_train, ind_test)"
    and "\<forall>y n. mset (shuffle y n) = mset [0 ..< n]"
  shows "mset (ind_train @ ind_test) = mset [0 ..< n]"
proof -
  let ?k = "nat \<lceil>ts * real n\<rceil>"
  from assms(2) have m: "mset (shuffle y n) = mset [0 ..< n]" by blast
  then have "size (mset (shuffle y n)) = size (mset [0 ..< n])" by simp
  then have len: "length (shuffle y n) = n" by simp
  from assms(1) have tr: "ind_train = take (n - ?k) (drop ?k (shuffle y n))"
    and te: "ind_test = take ?k (shuffle y n)"
    unfolding train_test_split_def Let_def by (auto split: if_splits)
  from len have dr: "take (n - ?k) (drop ?k (shuffle y n)) = drop ?k (shuffle y n)" by simp
  have "mset (take ?k (shuffle y n) @ drop ?k (shuffle y n)) = mset (shuffle y n)" by simp
  then have "mset (drop ?k (shuffle y n)) + mset (take ?k (shuffle y n)) = mset (shuffle y n)"
    by (simp only: mset_append union_commute)
  then show ?thesis by (simp only: tr te dr mset_append m)
qed

lemma triples_index_rows:
  assumes "length ls = length fs" "length ns = length fs" "\<forall>i\<in>set idx. i < length fs"
  shows "triples (index_rows fs idx, index_rows ls idx, index_rows ns idx)
           = index_rows (zip fs (zip ls ns)) idx"
  using assms by (induction idx) (simp_all add: triples_def index_rows_def)

lemma mset_perm_bound:
  assumes "mset idx = mset [0 ..< n]"
  shows "\<forall>i\<in>set idx. i < n"
proof -
  from assms have "set idx = set [0 ..< n]" by (rule mset_eq_setD)
  then show ?thesis by simp
qed

lemma split_triples:
  assumes "mset (ind_a @ ind_b) = mset [0 ..< length fs]"
    and "length ls = length fs" "length ns = length fs"
  shows "mset (triples (index_rows fs ind_a, index_rows ls ind_a, index_rows ns ind_a)
               @ triples (index_rows fs ind_b, index_rows ls ind_b, index_rows ns ind_b))
         = mset (triples (fs, ls, ns))"
proof -
  from mset_perm_bound [OF assms(1)] have b: "\<forall>i\<in>set ind_a. i < length fs" "\<forall>i\<in>set ind_b. i < length fs"
    by auto
  have l: "length (zip fs (zip ls ns)) = length fs" using assms(2,3) by simp
  have "mset (index_rows (zip fs (zip ls ns)) (ind_a @ ind_b)) = mset (zip fs (zip ls ns))"
    by (rule mset_index_rows) (simp only: l assms(1))
  moreover have "index_rows (zip fs (zip ls ns)) (ind_a @ ind_b)
        = index_rows (zip fs (zip ls ns)) ind_a @ index_rows (zip fs (zip ls ns)) ind_b"
    by (simp add: index_rows_def)
  moreover have "triples (fs, ls, ns) = zip fs (zip ls ns)" by (simp add: triples_def)
  ultimately show ?thesis
    by (simp only: triples_index_rows [OF assms(2,3) b(1)] triples_index_rows [OF assms(2,3) b(2)])
qed

lemma train_test_split_arrays_cover:
  assumes "train_test_split_arrays shuffle ts y a = Inr (b, c)"
    and "\<forall>y n. mset (shuffle y n) = mset [0 ..< n]"
  shows "mset (triples b @ triples c) = mset (triples a)"
proof -
  obtain fs ls ns where a: "a = (fs, ls, ns)" by (cases a)
  from assms(1) have l: "length ls = length fs" "length ns = length fs"
    unfolding train_test_split_arrays_def a by (auto split: if_splits)
  from assms(1) l obtain tr te where s: "train_test_split shuffle ts y (length fs) = Inr (tr, te)"
    and b: "b = select_rows a tr" and c: "c = select_rows a te"
    unfolding train_test_split_arrays_def a by (auto split: sum.splits)
  from split_triples [OF train_test_split_indices [OF s assms(2)] l]
  show ?thesis by (simp add: a b c select_rows_def)
qed

lemma split_dataset_Inr:
  assumes "split_dataset shuffle cfg st = Inr d"
  shows "\<exists>col tv te col2 tr va.
           train_test_split_arrays shuffle (test_size cfg) (stratify_by col)
             (features_acc st, labels_acc st, filenames_acc st) = Inr (tv, te)
         \<and> train_test_split_arrays shuffle (val_size cfg / (1 - test_size cfg)) (stratify_by col2) tv
             = Inr (tr, va)
         \<and> d = \<lparr>train_part = tr, val_part = va, test_part = te\<rparr>"
  using assms unfolding split_dataset_def Let_def
  by (simp split: if_splits sum.splits prod.splits del: split_paired_Ex split_paired_All) blast

text \<open>The partitions of a completed split hold the collected triples, each as often.\<close>

lemma split_dataset_cover:
  assumes "split_dataset shuffle cfg st = Inr d"
    and "\<forall>y n. mset (shuffle y n) = mset [0 ..< n]"
  shows "mset (triples (train_part d) @ triples (val_part d) @ triples (test_part d))
         = mset (triples (features_acc st, labels_acc st, filenames_acc st))"
proof -
  from split_dataset_Inr [OF assms(1)] obtain col tv te col2 tr va where
    s1: "train_test_split_arrays shuffle (test_size cfg) (stratify_by col)
           (features_acc st, labels_acc st, filenames_acc st) = Inr (tv, te)"
    and s2: "train_test_split_arrays shuffle (val_size cfg / (1 - test_size cfg)) (stratify_by col2) tv
           = Inr (tr, va)"
    and d: "d = \<lparr>train_part = tr, val_part = va, test_part = te\<rparr>"
    by blast
  have 1: "mset (triples tv) + mset (triples te)
      = mset (triples (features_acc st, labels_acc st, filenames_acc st))"
    using train_test_split_arrays_cover [OF s1 assms(2)] by simp
  have 2: "mset (triples tr) + mset (triples va) = mset (triples tv)"
    using train_test_split_arrays_cover [OF s2 assms(2)] by simp
  have "mset (triples tr) + (mset (triples va) + mset (triples te))
      = (mset (triples tr) + mset (triples va)) + mset (triples te)"
    by (simp only: add.assoc)
  also have "\<dots> = mset (triples (features_acc st, labels_acc st, filenames_acc st))"
    by (simp only: 2 1)
  finally show ?thesis by (simp add: d)
qed


lemma train_test_split_arrays_filenames:
  assumes "train_test_split_arrays shuffle ts y a = Inr (b, c)"
    and "\<forall>y n. mset (shuffle y n) = mset [0 ..< n]"
  shows "mset (snd (snd b) @ snd (snd c)) = mset (snd (snd a))"
proof -
  obtain fs ls ns where a: "a = (fs, ls, ns)" by (cases a)
  from assms(1) have l: "length ls = length fs" "length ns = length fs"
    unfolding train_test_split_arrays_def a by (auto split: if_splits)
  from assms(1) l obtain tr te where s: "train_test_split shuffle ts y (length fs) = Inr (tr, te)"
    and b: "b = select_rows a tr" and c: "c = select_rows a te"
    unfolding train_test_split_arrays_def a by (auto split: sum.splits)
  have "mset (tr @ te) = mset [0 ..< length ns]"
    using train_test_split_indices [OF s assms(2)] l by simp
  then have "mset (index_rows ns (tr @ te)) = mset ns" by (rule mset_index_rows)
  then show ?thesis by (simp add: a b c select_rows_def index_rows_def)
qed

lemma split_dataset_filenames:
  assumes "split_dataset shuffle cfg st = Inr d"
    and "\<forall>y n. mset (shuffle y n) = mset [0 ..< n]"
  shows "mset (snd (snd (train_part d)) @ snd (snd (val_part d)) @ snd (snd (test_part d)))
         = mset (filenames_acc st)"
proof -
  from split_dataset_Inr [OF assms(1)] obtain col tv te col2 tr va where
    s1: "train_test_split_arrays shuffle (test_size cfg) (stratify_by col)
           (features_acc st, labels_acc st, filenames_acc st) = Inr (tv, te)"
    and s2: "train_test_split_arrays shuffle (val_size cfg / (1 - test_size cfg)) (stratify_by col2) tv
           = Inr (tr, va)"
    and d: "d = \<lparr>train_part = tr, val_part = va, test_part = te\<rparr>"
    by blast
  have 1: "mset (snd (snd tv)) + mset (snd (snd te)) = mset (filenames_acc st)"
    using train_test_split_arrays_filenames [OF s1 assms(2)] by simp
  have 2: "mset (snd (snd tr)) + mset (snd (snd va)) = mset (snd (snd tv))"
    using train_test_split_arrays_filenames [OF s2 assms(2)] by simp
  have "mset (snd (snd tr)) + (mset (snd (snd va)) + mset (snd (snd te)))
      = (mset (snd (snd tr)) + mset (snd (snd va))) + mset (snd (snd te))"
    by (simp only: add.assoc)
  also have "\<dots> = mset (filenames_acc st)" by (simp only: 2 1)
  finally show ?thesis by (simp add: d)
qed

text \<open>
  C3 (as amended). When \<^verbatim>\<open>process_dataset\<close> completes, the train, validation and test
  partitions together hold every collected triple exactly as often as the loop collected
  it: none is dropped and none is duplicated by the split. The partitions are pairwise
  disjoint by file name whenever the collected file names are pairwise distinct. The order
  drawn by the seeded generator is any permutation of the positions.
\<close>

theorem partitions_cover_processed:
  assumes "\<forall>y n. mset (shuffle y n) = mset [0 ..< n]"
    and "process_dataset lib path_exists shuffle cfg df = Inr d"
  shows "\<exists>st. process_rows lib path_exists cfg df = Inr st
     \<and> mset (triples (train_part d) @ triples (val_part d) @ triples (test_part d))
         = mset (triples (features_acc st, labels_acc st, filenames_acc st))
     \<and> (distinct (filenames_acc st) \<longrightarrow>
          set (snd (snd (train_part d))) \<inter> set (snd (snd (val_part d))) = {}
        \<and> set (snd (snd (train_part d))) \<inter> set (snd (snd (test_part d))) = {}
        \<and> set (snd (snd (val_part d))) \<inter> set (snd (snd (test_part d))) = {})"
proof -
  from assms(2) obtain st where st: "process_rows lib path_exists cfg df = Inr st"
    and sp: "split_dataset shuffle cfg st = Inr d"
    by (auto simp: process_dataset_def split: sum.splits)
  have cover: "mset (triples (train_part d) @ triples (val_part d) @ triples (test_part d))
         = mset (triples (features_acc st, labels_acc st, filenames_acc st))"
    by (rule split_dataset_cover [OF sp assms(1)])
  have disj: "set (snd (snd (train_part d))) \<inter> set (snd (snd (val_part d))) = {}
        \<and> set (snd (snd (train_part d))) \<inter> set (snd (snd (test_part d))) = {}
        \<and> set (snd (snd (val_part d))) \<inter> set (snd (snd (test_part d))) = {}"
    if "distinct (filenames_acc st)"
  proof -
    from split_dataset_filenames [OF sp assms(1)] that
    have "distinct (snd (snd (train_part d)) @ snd (snd (val_part d)) @ snd (snd (test_part d)))"
      by (metis mset_eq_imp_distinct_iff)
    then show ?thesis by auto
  qed
  from st cover disj show ?thesis by blast
qed

lemma tiny_ceilings: "\<lceil>(9 / 20 :: real)\<rceil> = 1" "\<lceil>(6 / 17 :: real)\<rceil> = 1"
  by (simp_all add: ceiling_eq_iff)

lemma tiny_upt: "[0 ..< Suc (Suc (Suc 0))] = [0, 1, 2]" "[0 ..< Suc (Suc 0)] = [0, 1]"
  by (simp_all add: upt_rec)

lemma split_three:
  assumes "features_acc st = [f0, f1, f2]" and "shape3 f1 = shape3 f0" and "shape3 f2 = shape3 f0"
    and "labels_acc st = [[1], [1], [1]]" and "filenames_acc st = [n0, n1, n2]"
  shows "split_dataset (\<lambda>_ n. [0 ..< n]) tiny_config st =
           Inr \<lparr>train_part = ([f2], [[1]], [n2]), val_part = ([f1], [[1]], [n1]),
                test_part = ([f0], [[1]], [n0])\<rparr>"
proof -
  have ts: "test_size tiny_config = 15 / 100" "val_size tiny_config = 15 / 100"
    by (simp_all add: tiny_config_def)
  have lc: "last_column [[1], [1], [1]] = Inr [1, 1, 1]" "last_column [[1], [1]] = Inr [1, 1]"
    by (simp_all add: last_column_def)
  have sb: "stratify_by [1, 1, 1] = None" "stratify_by [1, 1] = None"
    by (simp_all add: stratify_by_def)
  have s1: "train_test_split_arrays (\<lambda>_ n. [0 ..< n]) (15 / 100) None
              ([f0, f1, f2], [[1], [1], [1]], [n0, n1, n2])
            = Inr (([f1, f2], [[1], [1]], [n1, n2]), ([f0], [[1]], [n0]))"
    by (simp add: train_test_split_arrays_def train_test_split_def Let_def select_rows_def
          index_rows_def tiny_ceilings tiny_upt)
  have s2: "train_test_split_arrays (\<lambda>_ n. [0 ..< n]) (15 / 100 / (1 - 15 / 100)) None
              ([f1, f2], [[1], [1]], [n1, n2])
            = Inr (([f2], [[1]], [n2]), ([f1], [[1]], [n1]))"
    by (simp add: train_test_split_arrays_def train_test_split_def Let_def select_rows_def
          index_rows_def tiny_ceilings tiny_upt)
  have g1: "([f0, f1, f2] = []) = False" by simp
  have g2: "(\<exists>f\<in>set [f0, f1, f2]. shape3 f \<noteq> shape3 (hd [f0, f1, f2])) = False"
    by (simp add: assms(2,3))
  show ?thesis
    unfolding split_dataset_def Let_def
    by (simp only: assms(1,4,5) g1 g2 if_False lc sb ts s1 s2 sum.case prod.case fst_conv snd_conv)
qed

text \<open>Three references to readable files, the other five cells of the row empty.\<close>

lemma tiny_three_collected:
  assumes "readable tiny_lib pe tiny_config a" "readable tiny_lib pe tiny_config b"
    "readable tiny_lib pe tiny_config c" "\<not> readable tiny_lib pe tiny_config ''nan''"
  shows "\<exists>st f0 f1 f2. process_rows tiny_lib pe tiny_config
            [\<lparr>class_values = [1],
              recording_values = [a, b, c, ''nan'', ''nan'', ''nan'', ''nan'', ''nan'']\<rparr>] = Inr st
          \<and> features_acc st = [f0, f1, f2] \<and> shape3 f1 = shape3 f0 \<and> shape3 f2 = shape3 f0
          \<and> labels_acc st = [[1], [1], [1]]
          \<and> filenames_acc st = [a @ ''.wav'', b @ ''.wav'', c @ ''.wav'']"
proof -
  have cfg: "0 < hop_length tiny_config" "0 < win_length tiny_config"
    "win_length tiny_config \<le> n_fft tiny_config"
    "n_fft tiny_config div 2 < target_sample_length tiny_config"
    by (simp_all add: tiny_config_def)
  let ?df = "[\<lparr>class_values = [1],
              recording_values = [a, b, c, ''nan'', ''nan'', ''nan'', ''nan'', ''nan'']\<rparr>]"
  from process_rows_post [OF cfg, of tiny_lib pe ?df collected_init]
  obtain st where st: "process_rows tiny_lib pe tiny_config ?df = Inr st"
    "loop_post tiny_lib pe tiny_config (references ?df) collected_init st"
    by (auto simp: process_rows_def)
  from st(2) assms have l: "length (features_acc st) = 3"
    and lab: "labels_acc st = [[1], [1], [1]]"
    and fn: "filenames_acc st = [a @ ''.wav'', b @ ''.wav'', c @ ''.wav'']"
    and sh: "\<forall>f\<in>set (features_acc st). shape3 f =
              cft 1 (n_mels tiny_config)
                (n_frames tiny_config (target_sample_length tiny_config + 2 * (n_fft tiny_config div 2)))"
    by (auto simp: loop_post_def Let_def collected_init_def references_def)
  from l obtain f0 f1 f2 where f: "features_acc st = [f0, f1, f2]"
    by (auto simp: numeral_3_eq_3 length_Suc_conv)
  with sh have "shape3 f1 = shape3 f0" "shape3 f2 = shape3 f0" by simp_all
  with st(1) f lab fn show ?thesis by blast
qed

lemma tiny_load_ok:
  "p \<noteq> ''/a/y.wav'' \<Longrightarrow> fst (load_audio_file tiny_lib p tiny_config) \<noteq> None"
  by (simp add: load_audio_file_def tiny_lib_def tiny_config_def shape1_def)

lemma tiny_paths_more:
  "file_path_of tiny_config ''a.wav'' = ''/a/a.wav''"
  "file_path_of tiny_config ''b.wav'' = ''/a/b.wav''"
  "file_path_of tiny_config ''c.wav'' = ''/a/c.wav''"
  "file_path_of tiny_config ''nan.wav'' = ''/a/nan.wav''"
  by (simp_all add: file_path_of_def os_path_join_def tiny_config_def)

text \<open>
  C3 as stated fails when a recording is referenced more than once. A row that names the
  recording \<open>x\<close> in three of its cells yields three triples with the file name
  \<open>x.wav\<close>; the split puts one in each partition, so all three partitions share the name.
\<close>

theorem partitions_share_a_filename:
  "map_sum id partition_filenames
     (process_dataset tiny_lib (\<lambda>p. p = ''/a/x.wav'') (\<lambda>_ n. [0 ..< n]) tiny_config
        [\<lparr>class_values = [1],
          recording_values = [''x'', ''x'', ''x'', ''nan'', ''nan'', ''nan'', ''nan'', ''nan'']\<rparr>])
   = Inr ([''x.wav''], [''x.wav''], [''x.wav''])"
proof -
  have rx: "readable tiny_lib (\<lambda>p. p = ''/a/x.wav'') tiny_config ''x''"
    by (simp add: readable_def tiny_paths tiny_load_ok)
  have rn: "\<not> readable tiny_lib (\<lambda>p. p = ''/a/x.wav'') tiny_config ''nan''"
    by (simp add: readable_def tiny_paths_more)
  from tiny_three_collected [OF rx rx rx rn]
  obtain st f0 f1 f2 where st: "process_rows tiny_lib (\<lambda>p. p = ''/a/x.wav'') tiny_config
            [\<lparr>class_values = [1],
              recording_values = [''x'', ''x'', ''x'', ''nan'', ''nan'', ''nan'', ''nan'', ''nan'']\<rparr>] = Inr st"
    and f: "features_acc st = [f0, f1, f2]" "shape3 f1 = shape3 f0" "shape3 f2 = shape3 f0"
    and l: "labels_acc st = [[1], [1], [1]]"
    and n: "filenames_acc st = [''x'' @ ''.wav'', ''x'' @ ''.wav'', ''x'' @ ''.wav'']"
    by blast
  from split_three [OF f l n] st show ?thesis
    by (simp add: process_dataset_def partition_filenames_def)
qed

theorem partitions_cover_processed_witness:
  "\<exists>d st. process_dataset tiny_lib (\<lambda>p. p \<in> {''/a/a.wav'', ''/a/b.wav'', ''/a/c.wav''})
              (\<lambda>_ n. [0 ..< n]) tiny_config
              [\<lparr>class_values = [1],
                recording_values = [''a'', ''b'', ''c'', ''nan'', ''nan'', ''nan'', ''nan'', ''nan'']\<rparr>] = Inr d
     \<and> process_rows tiny_lib (\<lambda>p. p \<in> {''/a/a.wav'', ''/a/b.wav'', ''/a/c.wav''}) tiny_config
              [\<lparr>class_values = [1],
                recording_values = [''a'', ''b'', ''c'', ''nan'', ''nan'', ''nan'', ''nan'', ''nan'']\<rparr>] = Inr st
     \<and> mset (triples (train_part d) @ triples (val_part d) @ triples (test_part d))
         = mset (triples (features_acc st, labels_acc st, filenames_acc st))
     \<and> filenames_acc st = [''a.wav'', ''b.wav'', ''c.wav'']
     \<and> partition_filenames d = ([''c.wav''], [''b.wav''], [''a.wav''])
     \<and> set (snd (snd (train_part d))) \<inter> set (snd (snd (val_part d))) = {}
     \<and> set (snd (snd (train_part d))) \<inter> set (snd (snd (test_part d))) = {}
     \<and> set (snd (snd (val_part d))) \<inter> set (snd (snd (test_part d))) = {}"
proof -
  let ?pe = "\<lambda>p. p \<in> {''/a/a.wav'', ''/a/b.wav'', ''/a/c.wav''}"
  let ?df = "[\<lparr>class_values = [1],
                recording_values = [''a'', ''b'', ''c'', ''nan'', ''nan'', ''nan'', ''nan'', ''nan'']\<rparr>]"
  have r: "readable tiny_lib ?pe tiny_config ''a''" "readable tiny_lib ?pe tiny_config ''b''"
    "readable tiny_lib ?pe tiny_config ''c''"
    by (simp_all add: readable_def tiny_paths_more tiny_load_ok)
  have rn: "\<not> readable tiny_lib ?pe tiny_config ''nan''"
    by (simp add: readable_def tiny_paths_more)
  from tiny_three_collected [OF r rn]
  obtain st f0 f1 f2 where st: "process_rows tiny_lib ?pe tiny_config ?df = Inr st"
    and f: "features_acc st = [f0, f1, f2]" "shape3 f1 = shape3 f0" "shape3 f2 = shape3 f0"
    and l: "labels_acc st = [[1], [1], [1]]"
    and n: "filenames_acc st = [''a'' @ ''.wav'', ''b'' @ ''.wav'', ''c'' @ ''.wav'']"
    by blast
  define d where "d = \<lparr>train_part = ([f2], [[1]], [''c'' @ ''.wav'']),
     val_part = ([f1], [[1]], [''b'' @ ''.wav'']), test_part = ([f0], [[1]], [''a'' @ ''.wav''])\<rparr>"
  have pd: "process_dataset tiny_lib ?pe (\<lambda>_ n. [0 ..< n]) tiny_config ?df = Inr d"
    using split_three [OF f l n] st by (simp add: process_dataset_def d_def)
  have perm: "\<forall>y n. mset ((\<lambda>_ n. [0 ..< n]) y n) = mset [0 ..< n]" by simp
  from partitions_cover_processed [OF perm pd] st
  have "mset (triples (train_part d) @ triples (val_part d) @ triples (test_part d))
         = mset (triples (features_acc st, labels_acc st, filenames_acc st))"
    and "distinct (filenames_acc st) \<longrightarrow>
          set (snd (snd (train_part d))) \<inter> set (snd (snd (val_part d))) = {}
        \<and> set (snd (snd (train_part d))) \<inter> set (snd (snd (test_part d))) = {}
        \<and> set (snd (snd (val_part d))) \<inter> set (snd (snd (test_part d))) = {}"
    by auto
  moreover have "distinct (filenames_acc st)" by (simp add: n)
  moreover have "filenames_acc st = [''a.wav'', ''b.wav'', ''c.wav'']" by (simp add: n)
  moreover have "partition_filenames d = ([''c.wav''], [''b.wav''], [''a.wav''])"
    by (simp add: partition_filenames_def d_def)
  ultimately show ?thesis using pd st by blast
qed

subsection \<open>Unreadable files and the result of process_dataset\<close>

















subsection \<open>The training loop and its checkpoint\<close>

text \<open>An epoch writes the checkpoint exactly when its F1 exceeds the tracked best.\<close>

lemma epoch_body_saves_iff:
  "saved_epochs (epoch_body te va mt st e) =
     (if va (te e (model_state st)) > best_val_f1 st then saved_epochs st @ [e] else saved_epochs st)"
  by (simp add: epoch_body_def Let_def)

lemma epoch_body_best:
  "best_val_f1 (epoch_body te va mt st e) = max (best_val_f1 st) (va (te e (model_state st)))"
  by (simp add: epoch_body_def Let_def max_def)

lemma epoch_body_history:
  "history_val_f1 (epoch_body te va mt st e) = history_val_f1 st @ [va (te e (model_state st))]"
  by (simp add: epoch_body_def Let_def)

lemma epoch_body_inv:
  assumes "checkpoint_inv va st"
  shows "checkpoint_inv va (epoch_body te va mt st e)"
  using assms unfolding checkpoint_inv_def epoch_body_def Let_def
  by (auto simp: max_def split: option.splits)

lemma training_loop_inv:
  "checkpoint_inv va st \<Longrightarrow> checkpoint_inv va (training_loop te va mt es st)"
proof (induction es arbitrary: st)
  case Nil
  then show ?case by simp
next
  case (Cons e es)
  from epoch_body_inv [OF Cons.prems] have "checkpoint_inv va (epoch_body te va mt st e)" .
  with Cons.IH show ?case by (simp add: Let_def)
qed

lemma training_loop_best_mono:
  "best_val_f1 st \<le> best_val_f1 (training_loop te va mt es st)"
proof (induction es arbitrary: st)
  case Nil
  show ?case by simp
next
  case (Cons e es)
  have "best_val_f1 st \<le> best_val_f1 (epoch_body te va mt st e)"
    by (simp add: epoch_body_best)
  also have "\<dots> \<le> best_val_f1 (training_loop te va mt es (epoch_body te va mt st e))"
    by (rule Cons.IH)
  finally show ?case by (auto simp: Let_def epoch_body_best)
qed

text \<open>
  When a checkpoint was written, the parameters loaded for the test evaluation are those
  with the largest validation F1 of the run.
\<close>

lemma train_main_loads_best:
  assumes "train_main te va mt initial disk = Inr st"
  shows "va (model_state st) = foldl max 0 (history_val_f1 st)"
proof -
  let ?st0 = "\<lparr>model_state = initial, best_val_f1 = 0, patience_counter = 0,
                 model_save_path = None, files = disk, history_val_f1 = [], saved_epochs = []\<rparr>"
  have "checkpoint_inv va ?st0" by (simp add: checkpoint_inv_def)
  then have "checkpoint_inv va (training_loop te va mt [0 ..< num_epochs] ?st0)"
    by (rule training_loop_inv)
  with assms show ?thesis
    unfolding train_main_def Let_def checkpoint_inv_def
    by (auto split: option.splits)
qed

text \<open>No epoch exceeds the tracked best: the path is never bound.\<close>

lemma training_loop_unbound:
  assumes "\<forall>m. va m \<le> best_val_f1 st" and "model_save_path st = None"
  shows "model_save_path (training_loop te va mt es st) = None"
  using assms
proof (induction es arbitrary: st)
  case Nil
  then show ?case by simp
next
  case (Cons e es)
  let ?st = "epoch_body te va mt st e"
  from Cons.prems have "\<not> va (te e (model_state st)) > best_val_f1 st"
    by (simp add: not_less)
  then have "best_val_f1 ?st = best_val_f1 st" "model_save_path ?st = None"
    using Cons.prems(2) by (simp_all add: epoch_body_def Let_def)
  with Cons.IH [of ?st] Cons.prems(1) show ?case by (simp add: Let_def)
qed

text \<open>
  C5. The claim says that the test evaluation loads the last-saved best checkpoint. When
  the validation F1 is 0 in every epoch, no epoch exceeds the initial best of 0, no
  checkpoint is written, \<open>model_save_path\<close> is never bound, and the load after the loop
  raises instead (whatever the training pass does and whatever is on disk).
\<close>

theorem no_checkpoint_when_f1_stays_zero:
  "train_main train_epoch (\<lambda>_. 0) model_type initial disk = Inl (UnboundLocalError ''model_save_path'')"
proof -
  let ?st0 = "\<lparr>model_state = initial, best_val_f1 = 0, patience_counter = 0,
                 model_save_path = None, files = disk, history_val_f1 = [], saved_epochs = []\<rparr>"
  have "model_save_path (training_loop train_epoch (\<lambda>_. 0) model_type [0 ..< num_epochs] ?st0) = None"
    by (rule training_loop_unbound) simp_all
  then show ?thesis by (simp add: train_main_def Let_def)
qed

subsection \<open>The shape of the logits\<close>

lemma Conformer_layers_keep_shape:
  assumes "hidden_dim c mod num_heads c = 0" and "odd (kernel_size c)" and "0 < t"
    and "training \<longrightarrow> 1 < b * t"
  shows "Conformer_layers c training k (b, t) = Inr (b, t)"
proof (induction k)
  case 0
  show ?case by simp
next
  case (Suc k)
  from assms(2) have "2 * ((kernel_size c - 1) div 2) = kernel_size c - 1" "0 < kernel_size c"
    by (auto elim: oddE)
  then have p: "padded_len (kernel_size c) t = t + kernel_size c - 1"
    by (simp add: padded_len_def)
  have q: "conv_out_len (kernel_size c) t = t"
    and r: "\<not> padded_len (kernel_size c) t < kernel_size c"
    using p assms(3) \<open>0 < kernel_size c\<close> by (simp_all add: conv_out_len_def)
  have "ConformerBlock_forward c training (b, t) = Inr (b, t)"
    using assms(1,4) by (auto simp: ConformerBlock_forward_def q r)
  with Suc show ?case by (simp add: and_then_def)
qed

text \<open>
  The Conformer that \<^verbatim>\<open>create_model\<close> builds returns logits of shape
  \<open>(batch, num_classes)\<close> for every batch of single-channel spectrograms with 128 mel bins
  and at most 5000 frames (in training mode, with more than one frame in the batch).
\<close>

lemma conformer_logits_shape:
  assumes "0 < b" and "0 < t" and "t \<le> 5000" and "training \<longrightarrow> 1 < b * t"
  shows "and_then (create_model ''conformer'' n) (\<lambda>m. forward m training [b, 1, 128, t]) = Inr [b, n]"
proof -
  let ?c = "\<lparr>input_dim = 128, hidden_dim = 256, num_classes = n, num_layers = 6, num_heads = 8,
             kernel_size = 31, pe_max_len = 5000\<rparr>"
  have c: "create_model ''conformer'' n = Inr (ConformerModel ?c)"
    by (simp add: create_model_def Conformer_init_def and_then_def)
  have "Conformer_layers ?c training 6 (b, t) = Inr (b, t)"
    by (rule Conformer_layers_keep_shape) (use assms in simp_all)
  then have "Conformer_forward ?c training [b, 1, 128, t] = Inr [b, n]"
    using assms by (simp add: Conformer_forward_def and_then_def)
  with c show ?thesis by (simp add: and_then_def forward_def)
qed

text \<open>
  An AudioSpectrogramTransformer object, if there were one, would return logits of shape
  \<open>(batch, num_classes)\<close> for inputs of exactly its \<open>img_size\<close>.
\<close>

lemma ast_logits_shape_at_img_size:
  assumes "PatchEmbed_init (128, 1024) (16, 16) 1 768 = Inr pe" and "patch_embed a = pe"
    and "depth a = 12" and "ast_num_heads a = 12"
  shows "AudioSpectrogramTransformer_forward a [b, 1, 128, 1024] = Inr [b, ast_num_classes a]"
proof -
  from assms(1) have pe: "pe = \<lparr>img_size = (128, 1024), patch_size = (16, 16), in_channels = 1,
       embed_dim = 768, num_patches = 512\<rparr>"
    by (simp add: PatchEmbed_init_def)
  have "PatchEmbed_forward pe [b, 1, 128, 1024] = Inr [b, 512, 768]"
    by (simp add: PatchEmbed_forward_def pe)
  then show ?thesis
    by (simp add: AudioSpectrogramTransformer_forward_def assms(2-4) and_then_def pe)
qed

text \<open>
  C2. The claim includes inputs smaller than the AST's \<open>img_size\<close>. On a batch of
  spectrograms as the preprocessing produces them, \<open>(32, 1, 128, 157)\<close>, the patch
  embedding configured as in train.py (\<open>img_size = (128, 1024)\<close>) raises in its padding
  branch instead of returning patches; and \<^verbatim>\<open>create_model\<close> cannot build the AST at all,
  its constructor raises.
\<close>

theorem ast_raises_on_smaller_input:
  "and_then (PatchEmbed_init (128, 1024) (16, 16) 1 768) (\<lambda>pe. PatchEmbed_forward pe [32, 1, 128, 157])
     = Inl (AttributeError ''int object has no attribute pad'')
   \<and> create_model ''ast'' 5 = Inl (AttributeError ''Identity object has no attribute out_features'')"
  by (simp add: and_then_def PatchEmbed_init_def PatchEmbed_forward_def create_model_def
        AudioSpectrogramTransformer_init_def representation_out_features_def)

subsection \<open>Missing checkpoints in evaluate.py\<close>

text \<open>An architecture without a checkpoint file: a warning, and on to the next.\<close>

lemma evaluate_one_missing:
  assumes "\<not> path_exists checkpoint"
  shows "evaluate_one path_exists run n st (model_name, checkpoint) =
           Inr (st\<lparr>eval_log := eval_log st @
                  [''WARNING Model checkpoint '' @ checkpoint @ '' not found. Skipping evaluation.'']\<rparr>)"
  using assms by (simp add: evaluate_one_def)

text \<open>
  With the AST checkpoint missing and the Conformer's present, \<^verbatim>\<open>main\<close> completes with
  the Conformer's result alone; the comparison picture is not drawn.
\<close>

lemma evaluate_main_ast_missing:
  assumes "path_exists ''checkpoints/best_model_conformer.pt''"
    and "\<not> path_exists ''checkpoints/best_model_ast.pt''"
    and "\<And>m. run m ''checkpoints/best_model_conformer.pt'' = Inr metrics"
  shows "evaluate_main path_exists run n =
           Inr \<lparr>model_results = [(''conformer'', metrics)],
                eval_log = [''INFO conformer Results'',
                            ''WARNING Model checkpoint checkpoints/best_model_ast.pt not found. Skipping evaluation.'',
                            ''INFO Evaluation complete!''],
                artifacts = [''evaluation_results/conformer_roc_curves.png'',
                             ''evaluation_results/conformer_confusion_matrix.png'']\<rparr>"
  using assms
  by (simp add: evaluate_main_def config_models_def evaluate_one_def and_then_def create_model_def
        Conformer_init_def)

text \<open>
  C9. With the Conformer's checkpoint missing and the AST's present, the Conformer is
  skipped with a warning, but the evaluation of the other architecture does not run to
  completion: \<^verbatim>\<open>create_model\<close> raises in the constructor of the AST, and \<^verbatim>\<open>main\<close>
  ends with that exception, whatever the checkpoint holds.
\<close>

theorem evaluate_main_raises_for_ast_checkpoint:
  "evaluate_main (\<lambda>p. p = ''checkpoints/best_model_ast.pt'') run n_classes
     = Inl (AttributeError ''Identity object has no attribute out_features'')"
  by (simp add: evaluate_main_def config_models_def evaluate_one_def and_then_def create_model_def
        AudioSpectrogramTransformer_init_def PatchEmbed_init_def representation_out_features_def)

subsection \<open>Saving and reloading a checkpoint\<close>

lemma construct_Inr:
  assumes "construct init model_type n = Inr m"
  shows "model_type = ''conformer''" and "state m = init (arch m)"
    and "create_model model_type n = Inr (arch m)"
proof -
  show mt: "model_type = ''conformer''"
  proof (rule ccontr)
    assume "model_type \<noteq> ''conformer''"
    then have "create_model model_type n = Inl (AttributeError ''Identity object has no attribute out_features'')"
      by (simp add: create_model_def and_then_def AudioSpectrogramTransformer_init_def
            PatchEmbed_init_def representation_out_features_def)
    with assms show False by (simp add: construct_def and_then_def)
  qed
  from assms show "state m = init (arch m)" "create_model model_type n = Inr (arch m)"
    by (auto simp: construct_def and_then_def split: sum.splits)
qed

lemma train_save_path_conformer:
  "train_save_path ''conformer'' = ''checkpoints/best_model_conformer.pt''"
  by (simp add: train_save_path_def os_path_join_def)

text \<open>
  C6. A model that train.py constructed and trained (its state has the names and shapes it
  was constructed with) is saved to train.py's checkpoint path; evaluate.py constructs a
  new model of that architecture, with other initial values, and loads the file at its
  configured path. The load succeeds, the new model holds the saved state, and its
  inference output equals the original's on every input.
\<close>

theorem checkpoint_round_trip:
  assumes "construct init model_type n = Inr m0"
    and "layout sd = layout (state m0)"
    and "\<forall>a. layout (init' a) = layout (init a)"
  shows "\<exists>m. evaluate_load init' (torch_save (state_dict_of (m0\<lparr>state := sd\<rparr>)) (train_save_path model_type) disk)
                model_type n = Inr m
           \<and> state m = sd
           \<and> (\<forall>x. inference net (m\<lparr>training_mode := False\<rparr>) x
                   = inference net (m0\<lparr>state := sd, training_mode := False\<rparr>) x)"
proof -
  from construct_Inr [OF assms(1)] have mt: "model_type = ''conformer''"
    and s0: "state m0 = init (arch m0)" and cm: "create_model model_type n = Inr (arch m0)"
    by simp_all
  let ?disk = "torch_save (state_dict_of (m0\<lparr>state := sd\<rparr>)) (train_save_path model_type) disk"
  let ?fresh = "\<lparr>arch = arch m0, state = init' (arch m0), training_mode = True\<rparr>"
  have c: "construct init' model_type n = Inr ?fresh"
    by (simp add: construct_def cm and_then_def)
  have p: "map_of config_models model_type = Some (train_save_path model_type)"
    by (simp add: mt config_models_def train_save_path_conformer)
  have l: "torch_load (train_save_path model_type) ?disk = Inr sd"
    by (simp add: torch_load_def torch_save_def state_dict_of_def)
  have "layout sd = layout (state ?fresh)"
    using assms(2,3) s0 by simp
  then have ld: "load_state_dict ?fresh sd = Inr (?fresh\<lparr>state := sd\<rparr>)"
    by (simp add: load_state_dict_def)
  have "evaluate_load init' ?disk model_type n = Inr (?fresh\<lparr>state := sd\<rparr>)"
    by (simp only: evaluate_load_def p option.case c l ld and_then_def sum.case)
  then show ?thesis by (simp add: inference_def)
qed

theorem checkpoint_round_trip_witness:
  "\<exists>m. evaluate_load (\<lambda>_. [(''output.bias'', ([2], [0, 0]))])
           (torch_save (state_dict_of
               (\<lparr>arch = ConformerModel \<lparr>input_dim = 128, hidden_dim = 256, num_classes = 2,
                     num_layers = 6, num_heads = 8, kernel_size = 31, pe_max_len = 5000\<rparr>,
                 state = [(''output.bias'', ([2], [1, 1]))], training_mode = True\<rparr>
                \<lparr>state := [(''output.bias'', ([2], [3, 4]))]\<rparr>))
             (train_save_path ''conformer'') Map.empty)
           ''conformer'' 2 = Inr m
      \<and> state m = [(''output.bias'', ([2], [3, 4]))]
      \<and> (\<forall>x :: real. inference (\<lambda>a sd x. x + sum_list (concat (map (snd \<circ> snd) sd)))
                 (m\<lparr>training_mode := False\<rparr>) x = x + 7)"
proof -
  let ?c = "\<lparr>input_dim = 128, hidden_dim = 256, num_classes = 2,
                     num_layers = 6, num_heads = 8, kernel_size = 31, pe_max_len = 5000\<rparr>"
  let ?m0 = "\<lparr>arch = ConformerModel ?c, state = [(''output.bias'', ([2], [1, 1]))], training_mode = True\<rparr>"
  have c: "construct (\<lambda>_. [(''output.bias'', ([2], [1, 1]))]) ''conformer'' 2 = Inr ?m0"
    by (simp add: construct_def create_model_def Conformer_init_def and_then_def)
  have l: "layout [(''output.bias'', ([2], [3, 4]))] = layout (state ?m0)"
    by (simp add: layout_def)
  have i: "\<forall>a. layout ((\<lambda>_. [(''output.bias'', ([2], [0, 0]))]) a)
             = layout ((\<lambda>_. [(''output.bias'', ([2 :: nat], [1, 1 :: real]))]) a)"
    by (simp add: layout_def)
  from checkpoint_round_trip [OF c l i, of Map.empty "\<lambda>a sd x. x + sum_list (concat (map (snd \<circ> snd) sd))"]
  show ?thesis by (simp add: inference_def)
qed

end
